theory Spec2Isabelle
  imports Main "HOL-Library.Word"
begin

section \<open>Data model of package remotewallet\<close>

text \<open>
  The Go package \<open>remotewallet\<close> has three files: the wallet life cycle
  (\<open>wallet\<close>, its \<open>driver\<close> interface), the registry \<open>RemoteWallet\<close> with the
  \<open>VeriteemDriver\<close>, and the HTTP client \<open>SigningServer\<close>.  A Go return
  \<open>(v, err)\<close> is a pair whose error component is \<open>None\<close> for \<open>nil\<close>; a nilable
  pointer, map or channel is an \<open>option\<close>.  Mutation of a receiver is explicit
  state passing: every method takes the object and returns the updated one.
\<close>

type_synonym byte = "8 word"

text \<open>\<open>common.Address\<close> is \<open>[20]byte\<close>; \<open>!=\<close> on arrays and \<open>bytes.Equal\<close> on
  their slices both compare element by element, which is list equality here.\<close>

type_synonym address = "byte list"

text \<open>\<open>accounts.DerivationPath\<close> is \<open>[]uint32\<close>.\<close>

type_synonym DerivationPath = "32 word list"

text \<open>Channels are named by a number; \<open>make\<close> hands out the name.\<close>

type_synonym chan = nat

record URL =
  Scheme :: string
  Path :: string

record Account =
  Address :: address
  URL :: URL

text \<open>
  The error values of the package: the three sentinels of package \<open>accounts\<close>
  the code returns, the two \<open>errLedger...\<close> variables, the formatted
  \<open>signer mismatch: expected %s, got %s\<close> error of \<open>wallet.SignTx\<close> (its two
  arguments are kept instead of the text), and every other error (JSON, HTTP,
  \<open>sc is null\<close>, ...) by its message.
\<close>

datatype error =
    ErrWalletAlreadyOpen
  | ErrNotSupported
  | ErrUnknownAccount
  | errLedgerReplyInvalidHeader
  | errLedgerInvalidVersionReply
  | SignerMismatch address address
  | OtherError string

text \<open>
  \<open>*types.Transaction\<close>: the fields the code reads through \<open>tx.Nonce()\<close>,
  \<open>tx.GasPrice()\<close>, \<open>tx.Gas()\<close>, \<open>tx.To()\<close> (a nil pointer for a contract
  creation), \<open>tx.Value()\<close>, \<open>tx.Data()\<close>, and the signature values that
  \<open>tx.UnmarshalJSON\<close> writes.  Transactions are passed by value: the pointer the
  driver returns on success is the caller's own pointer, here the updated value.
\<close>

record Transaction =
  tx_Nonce :: "64 word"
  tx_GasPrice :: int
  tx_Gas :: "64 word"
  tx_To :: "address option"
  tx_Value :: int
  tx_Data :: "byte list"
  tx_V :: int
  tx_R :: int
  tx_S :: int

text \<open>A call either returns its results or panics (a nil dereference).\<close>

datatype 'a go_result = Panic | Return 'a

subsection \<open>The driver interface\<close>

text \<open>
  \<open>type driver interface\<close>: the seven methods a signing backend implements.  A
  driver object is its state \<open>'d\<close> together with this table of methods; each
  method returns its results and the driver's new state.  Only \<open>SignTx\<close> has a
  panicking path in the one implementation of the repository, so only its
  result is a \<open>go_result\<close>.
\<close>

record 'd driver =
  Status :: "'d \<Rightarrow> (string \<times> error option) \<times> 'd"
  Open :: "string \<Rightarrow> 'd \<Rightarrow> error option \<times> 'd"
  Close :: "'d \<Rightarrow> error option \<times> 'd"
  Heartbeat :: "'d \<Rightarrow> error option \<times> 'd"
  Derive :: "DerivationPath \<Rightarrow> 'd \<Rightarrow> (address \<times> error option) \<times> 'd"
  SignTx :: "Account \<Rightarrow> Transaction \<Rightarrow> int option \<Rightarrow> 'd
               \<Rightarrow> (address \<times> Transaction option \<times> error option) go_result \<times> 'd"
  ReadAccounts :: "'d \<Rightarrow> (Account list \<times> error option) \<times> 'd"

text \<open>The invocations of driver methods, in the order a wallet makes them.\<close>

datatype driver_call =
    CallStatus
  | CallOpen string
  | CallClose
  | CallHeartbeat
  | CallSignTx Account Transaction "int option"
  | CallReadAccounts

subsection \<open>The wallet\<close>

text \<open>
  \<open>type wallet struct\<close>.  \<open>paths\<close> is a map that is nil while the wallet is
  closed; \<open>healthQuit\<close> is the channel of termination requests, nil while closed;
  \<open>commsLock\<close> is the one-slot channel used as a mutex: \<open>None\<close> is the nil
  channel, \<open>Some True\<close> a channel that holds its token, \<open>Some False\<close> one whose
  token is taken.  \<open>accounts\<close> is a slice, and the code never tells a nil slice
  from an empty one, so both are \<open>[]\<close>.  \<open>driver\<close> is the state of the driver
  object the wallet owns.  \<open>calls\<close> is not a field of the struct: it records the
  driver methods this wallet has invoked, so that "without invoking the driver"
  can be stated.  The back pointer \<open>remoteWallet\<close>, the logger and \<open>stateLock\<close>
  are left out; the sequential methods below are the bodies run under the lock.
\<close>

record 'd wallet =
  url :: URL
  driver :: 'd
  accounts :: "Account list"
  paths :: "(address \<rightharpoonup> DerivationPath) option"
  healthQuit :: "chan option"
  commsLock :: "bool option"
  calls :: "driver_call list"

text \<open>\<open>w.driver.M(...)\<close>: run the method on the wallet's driver and log the call.\<close>

definition call_Status :: "'d driver \<Rightarrow> 'd wallet \<Rightarrow> (string \<times> error option) \<times> 'd wallet" where
  "call_Status drv w =
     (case Status drv (driver w) of
        (r, d) \<Rightarrow> (r, w\<lparr>driver := d, calls := calls w @ [CallStatus]\<rparr>))"

definition call_Open :: "'d driver \<Rightarrow> string \<Rightarrow> 'd wallet \<Rightarrow> error option \<times> 'd wallet" where
  "call_Open drv passphrase w =
     (case Open drv passphrase (driver w) of
        (r, d) \<Rightarrow> (r, w\<lparr>driver := d, calls := calls w @ [CallOpen passphrase]\<rparr>))"

definition call_Close :: "'d driver \<Rightarrow> 'd wallet \<Rightarrow> error option \<times> 'd wallet" where
  "call_Close drv w =
     (case Close drv (driver w) of
        (r, d) \<Rightarrow> (r, w\<lparr>driver := d, calls := calls w @ [CallClose]\<rparr>))"

definition call_Heartbeat :: "'d driver \<Rightarrow> 'd wallet \<Rightarrow> error option \<times> 'd wallet" where
  "call_Heartbeat drv w =
     (case Heartbeat drv (driver w) of
        (r, d) \<Rightarrow> (r, w\<lparr>driver := d, calls := calls w @ [CallHeartbeat]\<rparr>))"

definition call_SignTx ::
  "'d driver \<Rightarrow> Account \<Rightarrow> Transaction \<Rightarrow> int option \<Rightarrow> 'd wallet
     \<Rightarrow> (address \<times> Transaction option \<times> error option) go_result \<times> 'd wallet" where
  "call_SignTx drv account tx chainID w =
     (case SignTx drv account tx chainID (driver w) of
        (r, d) \<Rightarrow> (r, w\<lparr>driver := d, calls := calls w @ [CallSignTx account tx chainID]\<rparr>))"

definition call_ReadAccounts :: "'d driver \<Rightarrow> 'd wallet \<Rightarrow> (Account list \<times> error option) \<times> 'd wallet" where
  "call_ReadAccounts drv w =
     (case ReadAccounts drv (driver w) of
        (r, d) \<Rightarrow> (r, w\<lparr>driver := d, calls := calls w @ [CallReadAccounts]\<rparr>))"

text \<open>
  \<open>wallet.Contains\<close>: the \<open>for _, acct := range w.accounts\<close> loop, returning
  \<open>true\<close> at the first entry whose address bytes equal the account's.
\<close>

fun Contains_range :: "Account list \<Rightarrow> byte list \<Rightarrow> bool" where
  "Contains_range [] acctBytes = False"
| "Contains_range (acct # rest) acctBytes =
     (if Address acct = acctBytes then True else Contains_range rest acctBytes)"

definition wallet_Contains :: "'d wallet \<Rightarrow> Account \<Rightarrow> bool" where
  "wallet_Contains w account = Contains_range (accounts w) (Address account)"

text \<open>
  \<open>wallet.SignTx\<close>: refuse an account that is not cached, ask the driver, pass
  its error on, and compare the signer it reports with the account.
\<close>

definition wallet_SignTx ::
  "'d driver \<Rightarrow> Account \<Rightarrow> Transaction \<Rightarrow> int option \<Rightarrow> 'd wallet
     \<Rightarrow> (Transaction option \<times> error option) go_result \<times> 'd wallet" where
  "wallet_SignTx drv account tx chainID w =
     (if wallet_Contains w account = False then (Return (None, Some ErrUnknownAccount), w)
      else
        (case call_SignTx drv account tx chainID w of
           (Panic, w') \<Rightarrow> (Panic, w')
         | (Return (sender, signedTx, err), w') \<Rightarrow>
             if err \<noteq> None then (Return (None, err), w')
             else if sender \<noteq> Address account
               then (Return (None, Some (SignerMismatch (Address account) sender)), w')
             else (Return (signedTx, None), w')))"

text \<open>\<open>wallet.SignTxWithPassphrase\<close> ignores the passphrase.\<close>

definition wallet_SignTxWithPassphrase ::
  "'d driver \<Rightarrow> Account \<Rightarrow> string \<Rightarrow> Transaction \<Rightarrow> int option \<Rightarrow> 'd wallet
     \<Rightarrow> (Transaction option \<times> error option) go_result \<times> 'd wallet" where
  "wallet_SignTxWithPassphrase drv account passphrase tx chainID w =
     wallet_SignTx drv account tx chainID w"

text \<open>\<open>wallet.Status\<close> returns what the driver's \<open>Status\<close> returns.\<close>

definition wallet_Status :: "'d driver \<Rightarrow> 'd wallet \<Rightarrow> (string \<times> error option) \<times> 'd wallet" where
  "wallet_Status drv w = call_Status drv w"

text \<open>\<open>wallet.Derive\<close>, \<open>wallet.SignHash\<close> and \<open>wallet.SignHashWithPassphrase\<close>
  are not supported; the first returns the zero account.\<close>

definition wallet_Derive :: "DerivationPath \<Rightarrow> bool \<Rightarrow> 'd wallet \<Rightarrow> Account \<times> error option" where
  "wallet_Derive path pin w =
     (\<lparr>Address = replicate 20 0, URL = \<lparr>Scheme = [], Path = []\<rparr>\<rparr>, Some ErrNotSupported)"

definition wallet_SignHash :: "Account \<Rightarrow> byte list \<Rightarrow> 'd wallet \<Rightarrow> byte list \<times> error option" where
  "wallet_SignHash account hash w = ([], Some ErrNotSupported)"

definition wallet_SignHashWithPassphrase ::
  "Account \<Rightarrow> string \<Rightarrow> byte list \<Rightarrow> 'd wallet \<Rightarrow> byte list \<times> error option" where
  "wallet_SignHashWithPassphrase account passphrase hash w = wallet_SignHash account hash w"

text \<open>
  \<open>wallet.Accounts\<close>: the driver's list replaces the cache even when the driver
  reports an error; the caller then gets an empty list, otherwise a copy.
\<close>

definition wallet_Accounts :: "'d driver \<Rightarrow> 'd wallet \<Rightarrow> Account list \<times> 'd wallet" where
  "wallet_Accounts drv w =
     (case call_ReadAccounts drv w of
        ((accs, err), w1) \<Rightarrow>
          let w2 = w1\<lparr>accounts := accs\<rparr> in
          if err \<noteq> None then ([], w2) else (accounts w2, w2))"

text \<open>
  \<open>wallet.close\<close>, the internal teardown: clear \<open>accounts\<close> and \<open>paths\<close>, call
  the driver's \<open>Close\<close> and drop what it returns, \<open>return nil\<close>.
\<close>

definition wallet_close :: "'d driver \<Rightarrow> 'd wallet \<Rightarrow> error option \<times> 'd wallet" where
  "wallet_close drv w =
     (let w1 = w\<lparr>accounts := [], paths := None\<rparr> in
      case call_Close drv w1 of (_, w2) \<Rightarrow> (None, w2))"

text \<open>
  What \<open>wallet.Open\<close> starts with \<open>go\<close>: the heartbeat task, and the delivery of
  an event to the registry's feed.
\<close>

datatype WalletEventType = WalletArrived | WalletOpened | WalletDropped

record 'd WalletEvent =
  Wallet :: "'d wallet"
  Kind :: WalletEventType

datatype 'd go_task = GoHeartbeat | GoFeedSend "'d WalletEvent"

text \<open>
  \<open>wallet.Open\<close>; \<open>hq\<close> is the channel that \<open>make(chan chan error)\<close> returns.
  The result is the error and the tasks started.
\<close>

definition wallet_Open ::
  "'d driver \<Rightarrow> string \<Rightarrow> chan \<Rightarrow> 'd wallet \<Rightarrow> (error option \<times> 'd go_task list) \<times> 'd wallet" where
  "wallet_Open drv passphrase hq w =
     (if paths w \<noteq> None then ((Some ErrWalletAlreadyOpen, []), w)
      else
        (case call_Open drv passphrase w of
           (Some err, w1) \<Rightarrow> ((Some err, []), w1)
         | (None, w1) \<Rightarrow>
             let w2 = w1\<lparr>paths := Some Map.empty\<rparr>;
                 w3 = w2\<lparr>healthQuit := Some hq\<rparr>
             in ((None, [GoHeartbeat, GoFeedSend \<lparr>Wallet = w3, Kind = WalletOpened\<rparr>]), w3)))"

subsection \<open>The heartbeat task\<close>

text \<open>
  \<open>wallet.heartbeat\<close> runs as a task of its own.  What it does is decided by
  which case of its \<open>select\<close> fires at each iteration, so the model takes the
  list of those outcomes: a termination request (the reply channel received
  from \<open>w.healthQuit\<close>), or the end of a heartbeat cycle of 60 seconds.
\<close>

datatype select_case = Termination chan | HeartbeatCycle

text \<open>
  How far the task gets: it has sent \<open>err\<close> on the reply channel and returned; it
  waits in a receive for an outcome the list does not have; or it is stuck for
  ever in \<open><-w.commsLock\<close>, holding the read lock.
\<close>

datatype 'd heartbeat_end =
    Replied chan "error option" "'d wallet"
  | Waiting "'d wallet"
  | BlockedOnCommsLock "'d wallet"

text \<open>\<open>errc = <-w.healthQuit\<close> after the loop: the next termination request.\<close>

fun next_request :: "select_case list \<Rightarrow> chan option" where
  "next_request [] = None"
| "next_request (Termination c # evs) = Some c"
| "next_request (HeartbeatCycle # evs) = next_request evs"

text \<open>
  The code after the loop: \<open>if err != nil { errc = <-w.healthQuit }\<close>, then
  \<open>errc <- err\<close>.  A send on a nil channel never completes.
\<close>

definition heartbeat_exit ::
  "chan option \<Rightarrow> error option \<Rightarrow> select_case list \<Rightarrow> 'd wallet \<Rightarrow> 'd heartbeat_end" where
  "heartbeat_exit errc err evs w =
     (case (if err \<noteq> None then next_request evs else errc) of
        None \<Rightarrow> Waiting w
      | Some c \<Rightarrow> Replied c err w)"

text \<open>
  The loop \<open>for errc == nil && err == nil\<close>, with its two variables.  A
  termination request sets \<open>errc\<close> and continues.  A heartbeat cycle takes the
  read lock, receives the token from \<open>w.commsLock\<close> (which never returns on a
  nil channel or on one without its token), calls the driver's \<open>Heartbeat\<close>,
  gives the token back, tears the wallet down when the driver reported an error,
  and resets \<open>err\<close> to nil.
\<close>

fun heartbeat_loop ::
  "'d driver \<Rightarrow> chan option \<Rightarrow> error option \<Rightarrow> select_case list \<Rightarrow> 'd wallet \<Rightarrow> 'd heartbeat_end" where
  "heartbeat_loop drv errc err [] w =
     (if errc = None \<and> err = None then Waiting w else heartbeat_exit errc err [] w)"
| "heartbeat_loop drv errc err (ev # evs) w =
     (if errc = None \<and> err = None then
        (case ev of
           Termination c \<Rightarrow> heartbeat_loop drv (Some c) err evs w
         | HeartbeatCycle \<Rightarrow>
             (case commsLock w of
                Some True \<Rightarrow>
                  (case call_Heartbeat drv (w\<lparr>commsLock := Some False\<rparr>) of
                     (err1, w1) \<Rightarrow>
                       let w2 = w1\<lparr>commsLock := Some True\<rparr>;
                           w3 = (if err1 \<noteq> None then snd (wallet_close drv w2) else w2)
                       in heartbeat_loop drv errc None evs w3)
              | _ \<Rightarrow> BlockedOnCommsLock w))
      else heartbeat_exit errc err (ev # evs) w)"

definition heartbeat :: "'d driver \<Rightarrow> select_case list \<Rightarrow> 'd wallet \<Rightarrow> 'd heartbeat_end" where
  "heartbeat drv evs w = heartbeat_loop drv None None evs w"

text \<open>
  The handshake of \<open>wallet.Close\<close> with the heartbeat task, \<open>hQuit <- errc\<close> and
  \<open>herr = <-errc\<close>: the task goes through the cycles \<open>evs\<close> that come before it
  takes the request.  The result is the error received and the wallet as the
  task left it, or \<open>None\<close> when no reply ever comes.
\<close>

definition heartbeat_handshake ::
  "'d driver \<Rightarrow> select_case list \<Rightarrow> chan \<Rightarrow> 'd wallet \<Rightarrow> (error option \<times> 'd wallet) option" where
  "heartbeat_handshake drv evs errc w =
     (case heartbeat drv (evs @ [Termination errc]) w of
        Replied c herr w' \<Rightarrow> Some (herr, w')
      | Waiting w' \<Rightarrow> None
      | BlockedOnCommsLock w' \<Rightarrow> None)"

text \<open>The three \<open>return\<close>s that end \<open>wallet.Close\<close>, on the errors of the
  teardown and of the heartbeat.\<close>

definition Close_return :: "error option \<Rightarrow> error option \<Rightarrow> error option" where
  "Close_return err herr =
     (if err \<noteq> None then err else if herr \<noteq> None then herr else None)"

text \<open>
  \<open>wallet.Close\<close>.  \<open>handshake\<close> is what the heartbeat task answers to the
  termination request (\<open>None\<close>: never, so \<open>Close\<close> does not return).  With a nil
  \<open>healthQuit\<close> no request is sent.  Then \<open>healthQuit\<close> is cleared and the
  teardown runs.
\<close>

definition wallet_Close ::
  "'d driver \<Rightarrow> ('d wallet \<Rightarrow> (error option \<times> 'd wallet) option) \<Rightarrow> 'd wallet
     \<Rightarrow> (error option \<times> 'd wallet) option" where
  "wallet_Close drv handshake w =
     (let hQuit = healthQuit w in
      case (if hQuit \<noteq> None then handshake w else Some (None, w)) of
        None \<Rightarrow> None
      | Some (herr, w0) \<Rightarrow>
          let w1 = w0\<lparr>healthQuit := None\<rparr> in
          (case wallet_close drv w1 of
             (err, w2) \<Rightarrow> Some (Close_return err herr, w2)))"

section \<open>The signing server and the Veriteem driver\<close>

text \<open>
  \<open>type SigningServer struct\<close> (its logger and its account cache, which no
  method reads, are left out).
\<close>

record SigningServer =
  serverURL :: string
  server_scheme :: string
  server_connected :: bool
  server_failed :: bool

record JsonTx =
  JsonTx_Account :: string
  JsonTx_To :: string
  JsonTx_Data :: string
  JsonTx_Nonce :: "64 word"
  JsonTx_GasLimit :: "64 word"
  JsonTx_Value :: int
  JsonTx_GasPrice :: int
  JsonTx_ChainId :: "int option"

record JsonRx =
  JsonRx_R :: string
  JsonRx_S :: string
  JsonRx_V :: string
  JsonRx_Hash :: string

record JsonSign =
  JsonSign_R :: string
  JsonSign_S :: string
  JsonSign_V :: string
  JsonSign_To :: string
  JsonSign_Nonce :: string
  JsonSign_GasLimit :: string
  JsonSign_Value :: string
  JsonSign_GasPrice :: string
  JsonSign_ChainId :: string
  JsonSign_Data :: string
  JsonSign_Hash :: string

text \<open>
  What the driver and the server client call outside the repository: the
  standard library's hex and number formatting, JSON encoding and decoding, the
  HTTP exchanges with the signing service, and go-ethereum's \<open>Address.Hex\<close>,
  \<open>HexToAddress\<close> and \<open>Transaction.UnmarshalJSON\<close>.  They are parameters of the
  model; a \<open>(v, err)\<close> result keeps both components.
\<close>

record library =
  hex_EncodeToString :: "byte list \<Rightarrow> string"
  Address_Hex :: "address \<Rightarrow> string"
  HexToAddress :: "string \<Rightarrow> address"
  Sprintf_0x_uint64 :: "64 word \<Rightarrow> string"
  Sprintf_0x_big :: "int \<Rightarrow> string"
  big_String :: "int option \<Rightarrow> string"
  Sprintf_Failed :: "error \<Rightarrow> string"
  Sprintf_online :: "byte \<Rightarrow> byte \<Rightarrow> byte \<Rightarrow> string"
  json_Marshal_JsonTx :: "JsonTx \<Rightarrow> byte list \<times> error option"
  json_Unmarshal_JsonRx :: "byte list \<Rightarrow> JsonRx \<times> error option"
  json_Marshal_JsonSign :: "JsonSign \<Rightarrow> byte list \<times> error option"
  json_Unmarshal_Accounts :: "byte list \<Rightarrow> string list"
  tx_UnmarshalJSON :: "byte list \<Rightarrow> Transaction \<Rightarrow> error option \<times> Transaction"
  http_NewRequest :: "string \<Rightarrow> string \<Rightarrow> error option"
  http_Post :: "string \<Rightarrow> byte list \<Rightarrow> byte list \<times> error option"
  http_Get :: "string \<Rightarrow> byte list \<times> error option"

text \<open>
  \<open>SigningServer.SignTx\<close>: build a POST request for \<open>serverURL/SignTx\<close> and send
  it.  The error of \<open>http.NewRequest\<close> is assigned and not looked at: when the
  request could not be built (a URL that does not parse) \<open>req\<close> is nil and
  \<open>req.Header.Set\<close> panics.  Otherwise the client's error is returned with a nil
  body, or the body that was read with no error.
\<close>

definition SigningServer_SignTx ::
  "library \<Rightarrow> SigningServer \<Rightarrow> byte list \<Rightarrow> (byte list \<times> error option) go_result" where
  "SigningServer_SignTx lib sc tx =
     (let url = serverURL sc @ ''/SignTx'' in
      case http_NewRequest lib ''POST'' url of
        Some err0 \<Rightarrow> Panic
      | None \<Rightarrow>
          (case http_Post lib url tx of
             (body, err) \<Rightarrow> if err \<noteq> None then Return ([], err) else Return (body, None)))"

text \<open>
  \<open>SigningServer.ReadAccountsFromServer\<close> on a non-nil receiver: get
  \<open>serverURL/ListAccounts\<close>, decode the account strings (a decoding error is
  dropped by the code), and make one account of each.
\<close>

definition ReadAccountsFromServer ::
  "library \<Rightarrow> SigningServer \<Rightarrow> Account list \<times> error option" where
  "ReadAccountsFromServer lib sc =
     (let request = serverURL sc @ ''/ListAccounts'' in
      case http_Get lib request of
        (buf, err) \<Rightarrow>
          if err \<noteq> None then ([], err)
          else
            (map (\<lambda>acct. \<lparr>Address = HexToAddress lib acct,
                           URL = \<lparr>Scheme = server_scheme sc, Path = serverURL sc\<rparr>\<rparr>)
                 (json_Unmarshal_Accounts lib buf), None))"

text \<open>\<open>type VeriteemDriver struct\<close>; \<open>version\<close> is \<open>[3]byte\<close>, a triple.\<close>

record VeriteemDriver =
  drv_signingServer :: SigningServer
  version :: "byte \<times> byte \<times> byte"
  failure :: "error option"

definition newVeriteemDriver :: "SigningServer \<Rightarrow> VeriteemDriver" where
  "newVeriteemDriver signingServer =
     \<lparr>drv_signingServer = signingServer, version = (0, 0, 0), failure = None\<rparr>"

text \<open>\<open>common.Address{}\<close>, the zero address.\<close>

definition zero_Address :: address where
  "zero_Address = replicate 20 0"

text \<open>\<open>VeriteemDriver.ledgerVersion\<close>: \<open>return version, nil\<close> with version 1.0.0.\<close>

definition ledgerVersion :: "VeriteemDriver \<Rightarrow> (byte \<times> byte \<times> byte) \<times> error option" where
  "ledgerVersion d = ((1, 0, 0), None)"

definition VeriteemDriver_Status ::
  "library \<Rightarrow> VeriteemDriver \<Rightarrow> (string \<times> error option) \<times> VeriteemDriver" where
  "VeriteemDriver_Status lib d =
     (case failure d of
        Some e \<Rightarrow> ((Sprintf_Failed lib e, failure d), d)
      | None \<Rightarrow>
          (case version d of
             (v0, v1, v2) \<Rightarrow> ((Sprintf_online lib v0 v1 v2, failure d), d)))"

definition VeriteemDriver_Open ::
  "string \<Rightarrow> VeriteemDriver \<Rightarrow> error option \<times> VeriteemDriver" where
  "VeriteemDriver_Open passphrase d =
     (case ledgerVersion d of
        (ver, err) \<Rightarrow>
          if err \<noteq> None then (err, d\<lparr>version := (0, 0, 0)\<rparr>)
          else (None, d\<lparr>version := ver\<rparr>))"

definition VeriteemDriver_Close :: "VeriteemDriver \<Rightarrow> error option \<times> VeriteemDriver" where
  "VeriteemDriver_Close d = (None, d\<lparr>version := (0, 0, 0)\<rparr>)"

text \<open>
  \<open>VeriteemDriver.Heartbeat\<close>: an error of \<open>ledgerVersion\<close> other than
  \<open>errLedgerInvalidVersionReply\<close> is stored in \<open>failure\<close> and returned.
\<close>

definition VeriteemDriver_Heartbeat :: "VeriteemDriver \<Rightarrow> error option \<times> VeriteemDriver" where
  "VeriteemDriver_Heartbeat d =
     (case ledgerVersion d of
        (ver, err) \<Rightarrow>
          if err \<noteq> None \<and> err \<noteq> Some errLedgerInvalidVersionReply
          then (err, d\<lparr>failure := err\<rparr>)
          else (None, d))"

definition VeriteemDriver_Derive ::
  "DerivationPath \<Rightarrow> VeriteemDriver \<Rightarrow> (address \<times> error option) \<times> VeriteemDriver" where
  "VeriteemDriver_Derive path d = ((zero_Address, Some ErrNotSupported), d)"

text \<open>
  \<open>VeriteemDriver.SignTx\<close>.  \<open>tx.To().Hex()\<close> dereferences the pointer that
  \<open>tx.To()\<close> returns, which is nil for a contract creation: the call panics.
  A panic of \<open>SigningServer.SignTx\<close> goes through it.  Every error return gives the zero address and a nil transaction; the one
  return without error gives \<open>account.Address\<close> and the transaction that
  \<open>tx.UnmarshalJSON\<close> has filled.  The error of the second \<open>json.Marshal\<close> is
  assigned and never read.
\<close>

definition VeriteemDriver_SignTx ::
  "library \<Rightarrow> Account \<Rightarrow> Transaction \<Rightarrow> int option \<Rightarrow> VeriteemDriver
     \<Rightarrow> (address \<times> Transaction option \<times> error option) go_result \<times> VeriteemDriver" where
  "VeriteemDriver_SignTx lib account tx chainID d =
     (case tx_To tx of
        None \<Rightarrow> (Panic, d)
      | Some to \<Rightarrow>
          let JsonMsg =
                \<lparr>JsonTx_Account = ''0x'' @ hex_EncodeToString lib (Address account),
                 JsonTx_To = Address_Hex lib to,
                 JsonTx_Data = ''0x'' @ hex_EncodeToString lib (tx_Data tx),
                 JsonTx_Nonce = tx_Nonce tx,
                 JsonTx_GasLimit = tx_Gas tx,
                 JsonTx_Value = tx_Value tx,
                 JsonTx_GasPrice = tx_GasPrice tx,
                 JsonTx_ChainId = chainID\<rparr>
          in
          (case json_Marshal_JsonTx lib JsonMsg of
             (jsonPayload, errj) \<Rightarrow>
               if errj \<noteq> None then (Return (zero_Address, None, errj), d)
               else
                 (case SigningServer_SignTx lib (drv_signingServer d) jsonPayload of
                    Panic \<Rightarrow> (Panic, d)
                  | Return (jsonResponse, errj) \<Rightarrow>
                      if errj \<noteq> None then (Return (zero_Address, None, errj), d)
                      else
                        (case json_Unmarshal_JsonRx lib jsonResponse of
                           (jsonrx, errj) \<Rightarrow>
                             if errj \<noteq> None then (Return (zero_Address, None, errj), d)
                             else
                               let jsonTran =
                                     \<lparr>JsonSign_R = JsonRx_R jsonrx,
                                      JsonSign_S = JsonRx_S jsonrx,
                                      JsonSign_V = JsonRx_V jsonrx,
                                      JsonSign_To = JsonTx_To JsonMsg,
                                      JsonSign_Nonce = Sprintf_0x_uint64 lib (tx_Nonce tx),
                                      JsonSign_GasLimit = Sprintf_0x_uint64 lib (tx_Gas tx),
                                      JsonSign_Value = Sprintf_0x_big lib (tx_Value tx),
                                      JsonSign_GasPrice = Sprintf_0x_big lib (tx_GasPrice tx),
                                      JsonSign_ChainId = big_String lib chainID,
                                      JsonSign_Data = ''0x'' @ hex_EncodeToString lib (tx_Data tx),
                                      JsonSign_Hash = JsonRx_Hash jsonrx\<rparr>
                               in
                               (case json_Marshal_JsonSign lib jsonTran of
                                  (jsonbyte, errj) \<Rightarrow>
                                    (case tx_UnmarshalJSON lib jsonbyte tx of
                                       (err, tx') \<Rightarrow>
                                         if err \<noteq> None
                                         then (Return (zero_Address, None, err), d)
                                         else (Return (Address account, Some tx', None), d)))))))"

definition VeriteemDriver_ReadAccounts ::
  "library \<Rightarrow> VeriteemDriver \<Rightarrow> (Account list \<times> error option) \<times> VeriteemDriver" where
  "VeriteemDriver_ReadAccounts lib d = (ReadAccountsFromServer lib (drv_signingServer d), d)"

text \<open>The Veriteem driver as an implementation of the interface.\<close>

definition Veriteem :: "library \<Rightarrow> VeriteemDriver driver" where
  "Veriteem lib =
     \<lparr>Status = VeriteemDriver_Status lib,
      Open = VeriteemDriver_Open,
      Close = VeriteemDriver_Close,
      Heartbeat = VeriteemDriver_Heartbeat,
      Derive = VeriteemDriver_Derive,
      SignTx = VeriteemDriver_SignTx lib,
      ReadAccounts = VeriteemDriver_ReadAccounts lib\<rparr>"

section \<open>The registry\<close>

text \<open>
  Time: a \<open>time.Time\<close> is a number of nanoseconds since the zero time, a
  \<open>time.Duration\<close> a number of nanoseconds held in an \<open>int64\<close>;
  \<open>Time.Sub\<close>, which \<open>time.Since\<close> calls, stops at the largest and the
  smallest duration.
\<close>

definition Millisecond :: int where
  "Millisecond = 1000000"

definition Second :: int where
  "Second = 1000 * Millisecond"

definition maxDuration :: int where
  "maxDuration = 2 ^ 63 - 1"

definition minDuration :: int where
  "minDuration = - (2 ^ 63)"

definition time_Sub :: "int \<Rightarrow> int \<Rightarrow> int" where
  "time_Sub t u =
     (let d = t - u in
      if d > maxDuration then maxDuration
      else if d < minDuration then minDuration
      else d)"

definition heartbeatCycle :: int where
  "heartbeatCycle = 60 * Second"

definition refreshCycle :: int where
  "refreshCycle = 60 * Second"

definition refreshThrottling :: int where
  "refreshThrottling = 500 * Millisecond"

definition VeriteemSigningServer :: string where
  "VeriteemSigningServer = ''http://13.59.10.65:80''"

definition RemoteWalletScheme :: string where
  "RemoteWalletScheme = ''remotewallet''"

text \<open>
  \<open>type RemoteWallet struct\<close>.  \<open>updateFeed\<close> is the list of the events given to
  \<open>Feed.Send\<close>, oldest first; \<open>updateScope\<close> is the list of the sinks whose
  subscriptions are tracked, so that \<open>updateScope.Count()\<close> is its length.  The
  wallets are held by value.  The \<open>quit\<close> channel is never used and is left out,
  as are the logger and the lock.
\<close>

record 'd RemoteWallet =
  signingServer :: SigningServer
  scheme :: string
  makeDriver :: "SigningServer \<Rightarrow> 'd"
  refreshed :: int
  wallets :: "'d wallet list"
  updateFeed :: "'d WalletEvent list"
  updateScope :: "nat list"
  updating :: bool

text \<open>
  \<open>RemoteWallet.refreshWallets\<close>.  The clock is read twice: \<open>now\<close> by
  \<open>time.Since\<close> for the throttle, \<open>now'\<close> by \<open>time.Now\<close> for the new timestamp.
  The wallet is built with the registry's scheme and the constant
  \<open>VeriteemSigningServer\<close> as its URL; every field the literal does not name is
  zero, so \<open>commsLock\<close> is the nil channel.
\<close>

definition refreshWallets :: "int \<Rightarrow> int \<Rightarrow> 'd RemoteWallet \<Rightarrow> 'd RemoteWallet" where
  "refreshWallets now now' rw =
     (let elapsed = time_Sub now (refreshed rw) in
      if elapsed < refreshThrottling then rw
      else
        let events = [];
            (rw1, events1) =
              (if length (wallets rw) = 0 then
                 let url = \<lparr>Scheme = scheme rw, Path = VeriteemSigningServer\<rparr>;
                     wallet = \<lparr>url = url, driver = makeDriver rw (signingServer rw),
                               accounts = [], paths = None, healthQuit = None,
                               commsLock = None, calls = []\<rparr>
                 in (rw\<lparr>wallets := [] @ [wallet]\<rparr>,
                     events @ [\<lparr>Wallet = wallet, Kind = WalletArrived\<rparr>])
               else (rw, events));
            rw2 = rw1\<lparr>refreshed := now'\<rparr>
        in rw2\<lparr>updateFeed := updateFeed rw2 @ events1\<rparr>)"

text \<open>\<open>RemoteWallet.Wallets\<close>: refresh, then return a copy of the list.\<close>

definition Wallets :: "int \<Rightarrow> int \<Rightarrow> 'd RemoteWallet \<Rightarrow> 'd wallet list \<times> 'd RemoteWallet" where
  "Wallets now now' rw =
     (let rw1 = refreshWallets now now' rw in (wallets rw1, rw1))"

text \<open>
  \<open>newRemoteWallet\<close>: the struct literal (the timestamp is the zero time), then
  a first refresh.  \<open>NewVeriteemWallet\<close> calls it with the two constants.
\<close>

definition newRemoteWallet ::
  "string \<Rightarrow> SigningServer \<Rightarrow> (SigningServer \<Rightarrow> 'd) \<Rightarrow> int \<Rightarrow> int \<Rightarrow> 'd RemoteWallet" where
  "newRemoteWallet scheme0 server makeDriver0 now now' =
     refreshWallets now now'
       \<lparr>signingServer = server, scheme = scheme0, makeDriver = makeDriver0, refreshed = 0,
        wallets = [], updateFeed = [], updateScope = [], updating = False\<rparr>"

definition NewVeriteemWallet :: "int \<Rightarrow> int \<Rightarrow> VeriteemDriver RemoteWallet" where
  "NewVeriteemWallet now now' =
     (let signingServer0 =
            \<lparr>serverURL = VeriteemSigningServer, server_scheme = RemoteWalletScheme,
             server_connected = False, server_failed = False\<rparr>
      in newRemoteWallet RemoteWalletScheme signingServer0 newVeriteemDriver now now')"

text \<open>
  \<open>RemoteWallet.Subscribe\<close>, the body run under the exclusive lock: track the
  subscription, and when no update loop is running set the flag and start one.
  The result says whether \<open>go remoteWallet.updater()\<close> was executed.
\<close>

definition Subscribe :: "nat \<Rightarrow> 'd RemoteWallet \<Rightarrow> bool \<times> 'd RemoteWallet" where
  "Subscribe sink rw =
     (let rw1 = rw\<lparr>updateScope := updateScope rw @ [sink]\<rparr> in
      if \<not> updating rw1 then (True, rw1\<lparr>updating := True\<rparr>) else (False, rw1))"

text \<open>\<open>Unsubscribe\<close> on a tracked subscription removes it from the scope.\<close>

definition Unsubscribe :: "nat \<Rightarrow> 'd RemoteWallet \<Rightarrow> 'd RemoteWallet" where
  "Unsubscribe sink rw = rw\<lparr>updateScope := remove1 sink (updateScope rw)\<rparr>"

text \<open>
  The end of an iteration of \<open>RemoteWallet.updater\<close>, run under the exclusive
  lock: with no subscriber left the flag is cleared and the task returns
  (\<open>True\<close>), otherwise it goes round the loop again.
\<close>

definition updater_check :: "'d RemoteWallet \<Rightarrow> bool \<times> 'd RemoteWallet" where
  "updater_check rw =
     (if length (updateScope rw) = 0 then (True, rw\<lparr>updating := False\<rparr>) else (False, rw))"

subsection \<open>The registry and its updater tasks as a transition system\<close>

text \<open>
  An updater task is in \<open>time.Sleep\<close>, or about to call \<open>refreshWallets\<close>, or
  about to take the lock for its check.  A state of the system is the registry
  and the updater tasks that are alive.  What happens next is one of: a call of
  \<open>Subscribe\<close>, an \<open>Unsubscribe\<close> of a tracked subscription, a call of
  \<open>Wallets\<close>, anything a wallet does (which changes the wallets and may send
  events, nothing else), and the three moves of the updater task at a position
  of the list.  The bodies run under the exclusive lock are single steps.
\<close>

datatype updater_pc = Sleeping | Refreshing | Checking

record 'd system =
  registry :: "'d RemoteWallet"
  updaters :: "updater_pc list"

datatype 'd action =
    DoSubscribe nat
  | DoUnsubscribe nat
  | DoWallets int int
  | DoWalletActivity "'d wallet list" "'d WalletEvent list"
  | UpdaterWakes nat
  | UpdaterRefreshes nat int int
  | UpdaterChecks nat

text \<open>One step; \<open>None\<close> when the action cannot happen in the state.\<close>

fun step :: "'d action \<Rightarrow> 'd system \<Rightarrow> 'd system option" where
  "step (DoSubscribe sink) s =
     (case Subscribe sink (registry s) of
        (started, rw) \<Rightarrow>
          Some \<lparr>registry = rw,
                updaters = (if started then updaters s @ [Sleeping] else updaters s)\<rparr>)"
| "step (DoUnsubscribe sink) s =
     (if sink \<in> set (updateScope (registry s))
      then Some (s\<lparr>registry := Unsubscribe sink (registry s)\<rparr>)
      else None)"
| "step (DoWallets now now') s =
     (case Wallets now now' (registry s) of (ws, rw) \<Rightarrow> Some (s\<lparr>registry := rw\<rparr>))"
| "step (DoWalletActivity ws evs) s =
     Some (s\<lparr>registry := (registry s)\<lparr>wallets := ws,
                                         updateFeed := updateFeed (registry s) @ evs\<rparr>\<rparr>)"
| "step (UpdaterWakes i) s =
     (if i < length (updaters s) \<and> updaters s ! i = Sleeping
      then Some (s\<lparr>updaters := (updaters s)[i := Refreshing]\<rparr>)
      else None)"
| "step (UpdaterRefreshes i now now') s =
     (if i < length (updaters s) \<and> updaters s ! i = Refreshing
      then Some (s\<lparr>registry := refreshWallets now now' (registry s),
                   updaters := (updaters s)[i := Checking]\<rparr>)
      else None)"
| "step (UpdaterChecks i) s =
     (if i < length (updaters s) \<and> updaters s ! i = Checking
      then
        (case updater_check (registry s) of
           (stop, rw) \<Rightarrow>
             Some \<lparr>registry = rw,
                   updaters = (if stop then take i (updaters s) @ drop (Suc i) (updaters s)
                               else (updaters s)[i := Sleeping])\<rparr>)
      else None)"

text \<open>A run: the steps of a list of actions, one after the other.\<close>

fun run :: "'d action list \<Rightarrow> 'd system \<Rightarrow> 'd system option" where
  "run [] s = Some s"
| "run (a # acts) s = (case step a s of None \<Rightarrow> None | Some s' \<Rightarrow> run acts s')"

text \<open>The system starts with the registry that \<open>newRemoteWallet\<close> returns and
  no updater task.\<close>

definition initial_system ::
  "string \<Rightarrow> SigningServer \<Rightarrow> (SigningServer \<Rightarrow> 'd) \<Rightarrow> int \<Rightarrow> int \<Rightarrow> 'd system" where
  "initial_system scheme0 server makeDriver0 now now' =
     \<lparr>registry = newRemoteWallet scheme0 server makeDriver0 now now', updaters = []\<rparr>"

section \<open>Auxiliary definitions for the statements\<close>

text \<open>The wallet a heartbeat task ends with, whichever way it ends.\<close>

fun end_wallet :: "'d heartbeat_end \<Rightarrow> 'd wallet" where
  "end_wallet (Replied c e w) = w"
| "end_wallet (Waiting w) = w"
| "end_wallet (BlockedOnCommsLock w) = w"

text \<open>The invariant of the transition system: one updater task when the flag
  \<open>updating\<close> is set, none otherwise.\<close>

definition updater_inv :: "'d system \<Rightarrow> bool" where
  "updater_inv s = (length (updaters s) = (if updating (registry s) then 1 else 0))"

subsection \<open>Concrete values\<close>

text \<open>
  A library whose calls all succeed, two addresses, a transfer, the signing
  server that \<open>NewVeriteemWallet\<close> configures, and a driver that fails every
  call but \<open>SignTx\<close>, for which it names a signer nobody asked for.
\<close>

definition example_library :: library where
  "example_library =
     \<lparr>hex_EncodeToString = (\<lambda>bs. ''''),
      Address_Hex = (\<lambda>a. ''''),
      HexToAddress = (\<lambda>s. zero_Address),
      Sprintf_0x_uint64 = (\<lambda>n. ''0x0''),
      Sprintf_0x_big = (\<lambda>n. ''0x0''),
      big_String = (\<lambda>n. ''1''),
      Sprintf_Failed = (\<lambda>e. ''Failed''),
      Sprintf_online = (\<lambda>a b c. ''online''),
      json_Marshal_JsonTx = (\<lambda>m. ([], None)),
      json_Unmarshal_JsonRx =
        (\<lambda>b. (\<lparr>JsonRx_R = ''0x1'', JsonRx_S = ''0x1'', JsonRx_V = ''0x1b'',
                 JsonRx_Hash = ''''\<rparr>, None)),
      json_Marshal_JsonSign = (\<lambda>m. ([], None)),
      json_Unmarshal_Accounts = (\<lambda>b. []),
      tx_UnmarshalJSON = (\<lambda>b tx. (None, tx\<lparr>tx_V := 27, tx_R := 1, tx_S := 1\<rparr>)),
      http_NewRequest = (\<lambda>m u. None),
      http_Post = (\<lambda>u b. ([], None)),
      http_Get = (\<lambda>u. ([], None))\<rparr>"

definition example_account :: Account where
  "example_account =
     \<lparr>Address = [1, 1, 1, 1, 1, 1, 1, 1, 1, 1, 1, 1, 1, 1, 1, 1, 1, 1, 1, 1],
      URL = \<lparr>Scheme = RemoteWalletScheme, Path = VeriteemSigningServer\<rparr>\<rparr>"

definition other_address :: address where
  "other_address = [2, 2, 2, 2, 2, 2, 2, 2, 2, 2, 2, 2, 2, 2, 2, 2, 2, 2, 2, 2]"

definition example_tx :: Transaction where
  "example_tx =
     \<lparr>tx_Nonce = 0, tx_GasPrice = 1, tx_Gas = 21000, tx_To = Some other_address,
      tx_Value = 5, tx_Data = [], tx_V = 0, tx_R = 0, tx_S = 0\<rparr>"

definition signed_tx :: Transaction where
  "signed_tx = example_tx\<lparr>tx_V := 27, tx_R := 1, tx_S := 1\<rparr>"

definition misbehaving_driver :: "unit driver" where
  "misbehaving_driver =
     \<lparr>Status = (\<lambda>d. ((''failed'', Some (OtherError ''offline'')), d)),
      Open = (\<lambda>passphrase d. (Some (OtherError ''offline''), d)),
      Close = (\<lambda>d. (Some (OtherError ''offline''), d)),
      Heartbeat = (\<lambda>d. (Some (OtherError ''offline''), d)),
      Derive = (\<lambda>path d. ((zero_Address, Some ErrNotSupported), d)),
      SignTx = (\<lambda>account tx chainID d. (Return (other_address, Some tx, None), d)),
      ReadAccounts = (\<lambda>d. (([], Some (OtherError ''offline'')), d))\<rparr>"

text \<open>A closed wallet that caches \<open>example_account\<close>, and the same wallet open.\<close>

definition example_wallet :: "'d \<Rightarrow> 'd wallet" where
  "example_wallet d =
     \<lparr>url = \<lparr>Scheme = RemoteWalletScheme, Path = VeriteemSigningServer\<rparr>, driver = d,
      accounts = [example_account], paths = None, healthQuit = None, commsLock = None,
      calls = []\<rparr>"

definition example_open_wallet :: "'d \<Rightarrow> 'd wallet" where
  "example_open_wallet d = (example_wallet d)\<lparr>paths := Some Map.empty, healthQuit := Some 3\<rparr>"

definition example_server :: SigningServer where
  "example_server =
     \<lparr>serverURL = VeriteemSigningServer, server_scheme = RemoteWalletScheme,
      server_connected = False, server_failed = False\<rparr>"

text \<open>
  A clock reading some two thousand years after the zero time, the registry
  that \<open>NewVeriteemWallet\<close> returns then, the struct literal it starts from, the
  wallet its first refresh builds, and that wallet after a successful \<open>Open\<close>.
\<close>

definition example_now :: int where
  "example_now = 63900000000000000000"

definition example_registry :: "VeriteemDriver RemoteWallet" where
  "example_registry = NewVeriteemWallet example_now example_now"

definition empty_registry :: "VeriteemDriver RemoteWallet" where
  "empty_registry =
     \<lparr>signingServer = example_server, scheme = RemoteWalletScheme,
      makeDriver = newVeriteemDriver, refreshed = 0, wallets = [], updateFeed = [],
      updateScope = [], updating = False\<rparr>"

definition new_wallet :: "VeriteemDriver wallet" where
  "new_wallet =
     \<lparr>url = \<lparr>Scheme = RemoteWalletScheme, Path = VeriteemSigningServer\<rparr>,
      driver = newVeriteemDriver example_server, accounts = [], paths = None,
      healthQuit = None, commsLock = None, calls = []\<rparr>"

definition opened_wallet :: "VeriteemDriver wallet" where
  "opened_wallet = snd (wallet_Open (Veriteem example_library) '''' 7 new_wallet)"

text \<open>
  A driver whose \<open>Open\<close> returns the sentinel \<open>accounts.ErrWalletAlreadyOpen\<close>
  and touches nothing (its other methods are those of \<open>misbehaving_driver\<close>).
\<close>

definition refusing_driver :: "unit driver" where
  "refusing_driver =
     misbehaving_driver\<lparr>Open := (\<lambda>passphrase d. (Some ErrWalletAlreadyOpen, d))\<rparr>"

text \<open>
  The struct literal of \<open>newRemoteWallet\<close> for a signing server at another
  address, and the wallet that \<open>refreshWallets\<close> builds for it.
\<close>

definition other_server :: SigningServer where
  "other_server =
     \<lparr>serverURL = ''http://127.0.0.1:8545'', server_scheme = RemoteWalletScheme,
      server_connected = False, server_failed = False\<rparr>"

definition other_registry :: "VeriteemDriver RemoteWallet" where
  "other_registry =
     \<lparr>signingServer = other_server, scheme = RemoteWalletScheme,
      makeDriver = newVeriteemDriver, refreshed = 0, wallets = [], updateFeed = [],
      updateScope = [], updating = False\<rparr>"

definition other_wallet :: "VeriteemDriver wallet" where
  "other_wallet =
     \<lparr>url = \<lparr>Scheme = RemoteWalletScheme, Path = VeriteemSigningServer\<rparr>,
      driver = newVeriteemDriver other_server, accounts = [], paths = None,
      healthQuit = None, commsLock = None, calls = []\<rparr>"

section \<open>Properties of the wallet\<close>

lemma Contains_range_iff: "Contains_range xs b \<longleftrightarrow> b \<in> Address ` set xs"
  by (induction xs) auto

lemmas example_defs =
  example_wallet_def example_open_wallet_def example_account_def other_address_def
  example_tx_def misbehaving_driver_def

lemma opened_wallet_fields:
  "commsLock opened_wallet = None \<and> paths opened_wallet = Some Map.empty
   \<and> healthQuit opened_wallet = Some 7"
  by (simp add: opened_wallet_def wallet_Open_def call_Open_def Veriteem_def new_wallet_def
      VeriteemDriver_Open_def ledgerVersion_def Let_def)

lemma example_SignTx:
  "VeriteemDriver_SignTx example_library example_account example_tx (Some 1)
     (newVeriteemDriver example_server)
   = (Return (Address example_account, Some signed_tx, None), newVeriteemDriver example_server)"
  by (simp add: VeriteemDriver_SignTx_def SigningServer_SignTx_def example_library_def
      example_tx_def signed_tx_def Let_def)

lemma example_call_SignTx:
  "call_SignTx (Veriteem example_library) example_account example_tx (Some 1)
     (example_wallet (newVeriteemDriver example_server))
   = (Return (Address example_account, Some signed_tx, None),
      (example_wallet (newVeriteemDriver example_server))
        \<lparr>calls := [CallSignTx example_account example_tx (Some 1)]\<rparr>)"
  by (simp add: call_SignTx_def Veriteem_def example_SignTx example_wallet_def)

lemma example_wallet_SignTx:
  "fst (wallet_SignTx (Veriteem example_library) example_account example_tx (Some 1)
          (example_wallet (newVeriteemDriver example_server)))
   = Return (Some signed_tx, None)"
  by (simp add: wallet_SignTx_def example_call_SignTx)
    (simp add: wallet_Contains_def example_wallet_def)

text \<open>
  Claim C1.  \<open>wallet.SignTx\<close> reaches the driver's sign operation for a cached
  account only.  When that operation returns without error a signer address
  other than the account's, \<open>SignTx\<close> returns a nil transaction and the
  signer-mismatch error, so the transaction the driver returned is dropped; and
  whenever \<open>SignTx\<close> returns a transaction with no error, the driver returned
  that transaction with the account's own address as signer.
\<close>

theorem SignTx_signer_mismatch:
  "(wallet_Contains w account \<longrightarrow>
      SignTx drv account tx chainID (driver w) = (Return (sender, signedTx, None), d) \<longrightarrow>
      sender \<noteq> Address account \<longrightarrow>
      fst (wallet_SignTx drv account tx chainID w)
        = Return (None, Some (SignerMismatch (Address account) sender)))
   \<and> (fst (wallet_SignTx drv account tx chainID w) = Return (stx, None) \<longrightarrow>
        (\<exists>sender' d'.
           SignTx drv account tx chainID (driver w) = (Return (sender', stx, None), d')
           \<and> sender' = Address account))"
  by (auto simp: wallet_SignTx_def call_SignTx_def split: prod.splits go_result.splits if_splits)

theorem SignTx_signer_mismatch_witness:
  "wallet_Contains (example_wallet ()) example_account
   \<and> SignTx misbehaving_driver example_account example_tx (Some 1) (driver (example_wallet ()))
       = (Return (other_address, Some example_tx, None), ())
   \<and> other_address \<noteq> Address example_account
   \<and> fst (wallet_SignTx misbehaving_driver example_account example_tx (Some 1) (example_wallet ()))
       = Return (None, Some (SignerMismatch (Address example_account) other_address))
   \<and> fst (wallet_SignTx (Veriteem example_library) example_account example_tx (Some 1)
            (example_wallet (newVeriteemDriver example_server)))
       = Return (Some signed_tx, None)
   \<and> (\<exists>sender' d'.
         SignTx (Veriteem example_library) example_account example_tx (Some 1)
           (driver (example_wallet (newVeriteemDriver example_server)))
           = (Return (sender', Some signed_tx, None), d')
         \<and> sender' = Address example_account)"
proof -
  have h1: "wallet_Contains (example_wallet ()) example_account"
    by (simp add: wallet_Contains_def example_defs)
  have h2: "SignTx misbehaving_driver example_account example_tx (Some 1)
              (driver (example_wallet ()))
            = (Return (other_address, Some example_tx, None), ())"
    by (simp add: misbehaving_driver_def)
  have h3: "other_address \<noteq> Address example_account"
    by (simp add: example_defs)
  from SignTx_signer_mismatch[where w = "example_wallet ()" and account = example_account
      and drv = misbehaving_driver and tx = example_tx and chainID = "Some 1"
      and sender = other_address and signedTx = "Some example_tx" and d = "()"] h1 h2 h3
  have a: "fst (wallet_SignTx misbehaving_driver example_account example_tx (Some 1)
               (example_wallet ()))
        = Return (None, Some (SignerMismatch (Address example_account) other_address))"
    by blast
  from SignTx_signer_mismatch[where w = "example_wallet (newVeriteemDriver example_server)"
      and account = example_account and drv = "Veriteem example_library" and tx = example_tx
      and chainID = "Some 1" and stx = "Some signed_tx"] example_wallet_SignTx
  have b: "\<exists>sender' d'.
         SignTx (Veriteem example_library) example_account example_tx (Some 1)
           (driver (example_wallet (newVeriteemDriver example_server)))
           = (Return (sender', Some signed_tx, None), d')
         \<and> sender' = Address example_account"
    by blast
  show ?thesis using h1 h2 h3 a b example_wallet_SignTx by blast
qed

text \<open>
  Claim C2.  For an account whose address equals the address of no entry of the
  cached account list, \<open>wallet.SignTx\<close> returns a nil transaction and
  \<open>ErrUnknownAccount\<close> and leaves the wallet as it was: the driver's state is
  the same and the log of driver calls has not grown, so the driver's sign
  operation was not invoked.
\<close>

theorem SignTx_unknown_account:
  "\<forall>a \<in> set (accounts w). Address a \<noteq> Address account \<Longrightarrow>
   wallet_SignTx drv account tx chainID w = (Return (None, Some ErrUnknownAccount), w)
   \<and> calls (snd (wallet_SignTx drv account tx chainID w)) = calls w
   \<and> driver (snd (wallet_SignTx drv account tx chainID w)) = driver w"
  by (auto simp: wallet_SignTx_def wallet_Contains_def Contains_range_iff)

theorem SignTx_unknown_account_witness:
  "accounts (example_wallet ()) = [example_account]
   \<and> Address example_account \<noteq> other_address
   \<and> wallet_SignTx misbehaving_driver \<lparr>Address = other_address, URL = URL example_account\<rparr>
        example_tx (Some 1) (example_wallet ())
       = (Return (None, Some ErrUnknownAccount), example_wallet ())"
proof -
  have h1: "accounts (example_wallet ()) = [example_account]"
    by (simp add: example_wallet_def)
  have h2: "Address example_account \<noteq> other_address"
    by (simp add: example_defs)
  have h: "\<forall>a \<in> set (accounts (example_wallet ())).
             Address a \<noteq> Address \<lparr>Address = other_address, URL = URL example_account\<rparr>"
    using h1 h2 by simp
  from SignTx_unknown_account[OF h, where drv = misbehaving_driver and tx = example_tx
      and chainID = "Some 1"] h1 h2
  show ?thesis by blast
qed

text \<open>
  Claim C3, as the code has it.  With \<open>paths\<close> not nil, \<open>wallet.Open\<close> returns
  \<open>ErrWalletAlreadyOpen\<close>, starts no task and leaves the wallet as it was,
  without calling the driver.  With \<open>paths\<close> nil it calls the driver's open
  operation once and its error is the driver's, whatever that is: so it is not
  true that \<open>ErrWalletAlreadyOpen\<close> with an unchanged wallet comes exactly when
  \<open>paths\<close> is not nil (see \<open>refusing_driver\<close> below).  When the driver's open
  operation fails, \<open>Open\<close> returns that error and starts no task; only the
  driver's state and the log of driver calls have changed, so \<open>paths\<close> is still
  nil and \<open>healthQuit\<close> is what it was (nil for a closed wallet); and the next
  \<open>Open\<close> is not refused: its result is what the driver's open operation
  returns then.  With the Veriteem driver, whose \<open>Open\<close> does not fail, \<open>Open\<close>
  returns \<open>ErrWalletAlreadyOpen\<close> exactly when \<open>paths\<close> is not nil.
\<close>

theorem Open_already_open_or_driver_error:
  "(paths w \<noteq> None \<longrightarrow>
      wallet_Open drv passphrase hq w = ((Some ErrWalletAlreadyOpen, []), w))
   \<and> (paths w = None \<longrightarrow>
        fst (fst (wallet_Open drv passphrase hq w)) = fst (Open drv passphrase (driver w))
        \<and> calls (snd (wallet_Open drv passphrase hq w)) = calls w @ [CallOpen passphrase])
   \<and> (paths w = None \<longrightarrow> Open drv passphrase (driver w) = (Some e, d) \<longrightarrow>
        wallet_Open drv passphrase hq w
          = ((Some e, []), w\<lparr>driver := d, calls := calls w @ [CallOpen passphrase]\<rparr>)
        \<and> paths (snd (wallet_Open drv passphrase hq w)) = None
        \<and> healthQuit (snd (wallet_Open drv passphrase hq w)) = healthQuit w
        \<and> fst (fst (wallet_Open drv passphrase' hq' (snd (wallet_Open drv passphrase hq w))))
            = fst (Open drv passphrase' d))
   \<and> (fst (fst (wallet_Open (Veriteem lib) passphrase hq v)) = Some ErrWalletAlreadyOpen
        \<longleftrightarrow> paths v \<noteq> None)"
proof -
  have guard: "paths w \<noteq> None \<Longrightarrow>
      wallet_Open drv passphrase hq w = ((Some ErrWalletAlreadyOpen, []), w)"
    by (simp add: wallet_Open_def)
  have through: "paths w = None \<Longrightarrow>
      fst (fst (wallet_Open drv passphrase hq w)) = fst (Open drv passphrase (driver w))
      \<and> calls (snd (wallet_Open drv passphrase hq w)) = calls w @ [CallOpen passphrase]"
    by (auto simp: wallet_Open_def call_Open_def Let_def split: prod.splits option.splits)
  have fail: "paths w = None \<Longrightarrow> Open drv passphrase (driver w) = (Some e, d) \<Longrightarrow>
        wallet_Open drv passphrase hq w
          = ((Some e, []), w\<lparr>driver := d, calls := calls w @ [CallOpen passphrase]\<rparr>)"
    by (simp add: wallet_Open_def call_Open_def)
  have retry: "paths w = None \<Longrightarrow> Open drv passphrase (driver w) = (Some e, d) \<Longrightarrow>
        fst (fst (wallet_Open drv passphrase' hq' (snd (wallet_Open drv passphrase hq w))))
            = fst (Open drv passphrase' d)"
    by (auto simp: fail wallet_Open_def call_Open_def Let_def split: prod.splits option.splits)
  have veriteem: "fst (fst (wallet_Open (Veriteem lib) passphrase hq v)) = Some ErrWalletAlreadyOpen
        \<longleftrightarrow> paths v \<noteq> None"
    by (auto simp: wallet_Open_def call_Open_def Veriteem_def VeriteemDriver_Open_def
          ledgerVersion_def Let_def)
  show ?thesis using guard through fail retry veriteem by simp
qed

theorem Open_already_open_or_driver_error_witness:
  "paths (example_open_wallet ()) \<noteq> None
   \<and> wallet_Open misbehaving_driver '''' 7 (example_open_wallet ())
       = ((Some ErrWalletAlreadyOpen, []), example_open_wallet ())
   \<and> paths (example_wallet ()) = None
   \<and> healthQuit (example_wallet ()) = None
   \<and> Open misbehaving_driver '''' (driver (example_wallet ()))
       = (Some (OtherError ''offline''), ())
   \<and> fst (wallet_Open misbehaving_driver '''' 7 (example_wallet ()))
       = (Some (OtherError ''offline''), [])
   \<and> calls (snd (wallet_Open misbehaving_driver '''' 7 (example_wallet ())))
       = calls (example_wallet ()) @ [CallOpen '''']
   \<and> paths (snd (wallet_Open misbehaving_driver '''' 7 (example_wallet ()))) = None
   \<and> healthQuit (snd (wallet_Open misbehaving_driver '''' 7 (example_wallet ()))) = None
   \<and> paths new_wallet = None
   \<and> fst (fst (wallet_Open (Veriteem example_library) '''' 7 new_wallet))
       \<noteq> Some ErrWalletAlreadyOpen
   \<and> paths opened_wallet \<noteq> None
   \<and> fst (fst (wallet_Open (Veriteem example_library) '''' 8 opened_wallet))
       = Some ErrWalletAlreadyOpen"
proof -
  have o1: "paths (example_open_wallet ()) \<noteq> None"
    by (simp add: example_open_wallet_def)
  have c1: "paths (example_wallet ()) = None" and c2: "healthQuit (example_wallet ()) = None"
    by (simp_all add: example_wallet_def)
  have c3: "Open misbehaving_driver '''' (driver (example_wallet ()))
              = (Some (OtherError ''offline''), ())"
    by (simp add: misbehaving_driver_def)
  have n1: "paths new_wallet = None"
    by (simp add: new_wallet_def)
  have n2: "paths opened_wallet \<noteq> None"
    by (simp add: opened_wallet_fields)
  from Open_already_open_or_driver_error[where w = "example_open_wallet ()"
      and drv = misbehaving_driver and passphrase = "''''" and hq = 7] o1
  have a: "wallet_Open misbehaving_driver '''' 7 (example_open_wallet ())
             = ((Some ErrWalletAlreadyOpen, []), example_open_wallet ())"
    by blast
  note inst = Open_already_open_or_driver_error[where w = "example_wallet ()"
      and drv = misbehaving_driver and passphrase = "''''" and hq = 7
      and e = "OtherError ''offline''" and d = "()"]
  from inst c1 c3
  have b: "wallet_Open misbehaving_driver '''' 7 (example_wallet ())
             = ((Some (OtherError ''offline''), []),
                (example_wallet ())\<lparr>driver := (),
                   calls := calls (example_wallet ()) @ [CallOpen '''']\<rparr>)
           \<and> paths (snd (wallet_Open misbehaving_driver '''' 7 (example_wallet ()))) = None
           \<and> healthQuit (snd (wallet_Open misbehaving_driver '''' 7 (example_wallet ())))
               = healthQuit (example_wallet ())"
    by blast
  then have b1: "fst (wallet_Open misbehaving_driver '''' 7 (example_wallet ()))
             = (Some (OtherError ''offline''), [])"
    by simp
  from b c2
  have b2: "healthQuit (snd (wallet_Open misbehaving_driver '''' 7 (example_wallet ()))) = None"
    by simp
  from inst c1
  have b3: "calls (snd (wallet_Open misbehaving_driver '''' 7 (example_wallet ())))
       = calls (example_wallet ()) @ [CallOpen '''']"
    by blast
  from Open_already_open_or_driver_error[where lib = example_library and v = new_wallet
      and passphrase = "''''" and hq = 7 and w = "example_wallet ()"
      and drv = misbehaving_driver] n1
  have v1: "fst (fst (wallet_Open (Veriteem example_library) '''' 7 new_wallet))
       \<noteq> Some ErrWalletAlreadyOpen"
    by blast
  from Open_already_open_or_driver_error[where lib = example_library and v = opened_wallet
      and passphrase = "''''" and hq = 8 and w = "example_wallet ()"
      and drv = misbehaving_driver] n2
  have v2: "fst (fst (wallet_Open (Veriteem example_library) '''' 8 opened_wallet))
       = Some ErrWalletAlreadyOpen"
    by blast
  show ?thesis using o1 a c1 c2 c3 b b1 b2 b3 n1 n2 v1 v2 by blast
qed

text \<open>
  The claim C3 as it was stated fails on a closed wallet whose driver refuses
  to open with the sentinel error: \<open>Open\<close> returns \<open>ErrWalletAlreadyOpen\<close> and
  starts no task, and every field of the wallet and the driver's state are what
  they were (the wallet differs from the one before by the log of driver calls
  alone), although \<open>paths\<close> is nil.
\<close>

theorem Open_already_open_counterexample:
  "paths (example_wallet ()) = None
   \<and> Open refusing_driver '''' (driver (example_wallet ())) = (Some ErrWalletAlreadyOpen, ())
   \<and> fst (wallet_Open refusing_driver '''' 7 (example_wallet ()))
       = (Some ErrWalletAlreadyOpen, [])
   \<and> (snd (wallet_Open refusing_driver '''' 7 (example_wallet ())))
        \<lparr>calls := calls (example_wallet ())\<rparr> = example_wallet ()
   \<and> \<not> ((fst (fst (wallet_Open refusing_driver '''' 7 (example_wallet ())))
             = Some ErrWalletAlreadyOpen
           \<and> (snd (wallet_Open refusing_driver '''' 7 (example_wallet ())))
                \<lparr>calls := calls (example_wallet ())\<rparr> = example_wallet ())
          \<longleftrightarrow> paths (example_wallet ()) \<noteq> None)"
  by (simp add: wallet_Open_def call_Open_def refusing_driver_def misbehaving_driver_def
      example_wallet_def)

text \<open>
  Claim C4.  The internal teardown \<open>wallet.close\<close> returns no error, and leaves
  \<open>accounts\<close> empty and \<open>paths\<close> nil, whatever the driver's close operation
  returns.  \<open>wallet.Close\<close> returns one error value: the teardown's error when
  there is one, before the error the heartbeat task reported.  As the teardown
  has none, a \<open>Close\<close> that returns gives the error the heartbeat task reported
  in the handshake, and nil when there was no handshake; the wallet is then
  closed.  \<open>Close\<close> returns unless it sent a termination request that is never
  answered.
\<close>

theorem Close_error_priority:
  "fst (wallet_close drv w) = None
   \<and> accounts (snd (wallet_close drv w)) = []
   \<and> paths (snd (wallet_close drv w)) = None
   \<and> Close_return (Some e) herr = Some e
   \<and> Close_return None herr = herr
   \<and> (wallet_Close drv handshake w = None \<longleftrightarrow> healthQuit w \<noteq> None \<and> handshake w = None)
   \<and> (wallet_Close drv handshake w = Some (r, w') \<longrightarrow>
        (if healthQuit w = None then r = None else (\<exists>w0. handshake w = Some (r, w0)))
        \<and> healthQuit w' = None \<and> paths w' = None \<and> accounts w' = [])"
  by (auto simp: wallet_close_def call_Close_def wallet_Close_def Close_return_def Let_def
           split: prod.splits option.splits if_splits)

theorem Close_error_priority_witness:
  "Close misbehaving_driver () = (Some (OtherError ''offline''), ())
   \<and> healthQuit (example_open_wallet ()) \<noteq> None
   \<and> wallet_Close misbehaving_driver (\<lambda>w. Some (None, w)) (example_open_wallet ())
       = Some (None, (example_wallet ())\<lparr>accounts := [], calls := [CallClose]\<rparr>)
   \<and> healthQuit ((example_wallet ())\<lparr>accounts := [], calls := [CallClose]\<rparr>) = None
   \<and> paths ((example_wallet ())\<lparr>accounts := [], calls := [CallClose]\<rparr>) = None
   \<and> fst (wallet_close misbehaving_driver (example_open_wallet ())) = None
   \<and> Close_return (Some ErrNotSupported) (Some ErrUnknownAccount) = Some ErrNotSupported
   \<and> wallet_Close misbehaving_driver (\<lambda>w. None) (example_open_wallet ()) = None"
proof -
  have c: "Close misbehaving_driver () = (Some (OtherError ''offline''), ())"
    by (simp add: misbehaving_driver_def)
  have q: "healthQuit (example_open_wallet ()) \<noteq> None"
    by (simp add: example_open_wallet_def)
  have h: "wallet_Close misbehaving_driver (\<lambda>w. Some (None, w)) (example_open_wallet ())
       = Some (None, (example_wallet ())\<lparr>accounts := [], calls := [CallClose]\<rparr>)"
    by (simp add: example_defs wallet_Close_def wallet_close_def call_Close_def Close_return_def)
  note inst = Close_error_priority[where w = "example_open_wallet ()" and drv = misbehaving_driver
      and e = ErrNotSupported and herr = "Some ErrUnknownAccount"
      and handshake = "\<lambda>w. Some (None, w)" and r = None
      and w' = "(example_wallet ())\<lparr>accounts := [], calls := [CallClose]\<rparr>"]
  from inst have t: "fst (wallet_close misbehaving_driver (example_open_wallet ())) = None
           \<and> Close_return (Some ErrNotSupported) (Some ErrUnknownAccount) = Some ErrNotSupported"
    by blast
  from inst h have u: "healthQuit ((example_wallet ())\<lparr>accounts := [], calls := [CallClose]\<rparr>) = None
           \<and> paths ((example_wallet ())\<lparr>accounts := [], calls := [CallClose]\<rparr>) = None"
    by blast
  from Close_error_priority[where w = "example_open_wallet ()" and drv = misbehaving_driver
      and handshake = "\<lambda>w. None"] q
  have n: "wallet_Close misbehaving_driver (\<lambda>w. None) (example_open_wallet ()) = None"
    by blast
  show ?thesis using c q h t u n by blast
qed

section \<open>Properties of the registry\<close>

lemma refreshWallets_updating: "updating (refreshWallets now now' rw) = updating rw"
  by (simp add: refreshWallets_def Let_def split: prod.splits)

lemma refreshWallets_updateScope: "updateScope (refreshWallets now now' rw) = updateScope rw"
  by (simp add: refreshWallets_def Let_def split: prod.splits)

lemmas clock_defs =
  time_Sub_def example_now_def maxDuration_def minDuration_def refreshThrottling_def
  Millisecond_def Second_def

lemma example_registry_eq:
  "example_registry =
     \<lparr>signingServer = example_server, scheme = RemoteWalletScheme,
      makeDriver = newVeriteemDriver, refreshed = example_now, wallets = [new_wallet],
      updateFeed = [\<lparr>Wallet = new_wallet, Kind = WalletArrived\<rparr>],
      updateScope = [], updating = False\<rparr>"
  by (simp add: example_registry_def NewVeriteemWallet_def newRemoteWallet_def
      refreshWallets_def clock_defs new_wallet_def example_server_def Let_def)

text \<open>
  Claim C5.  When less than 500 milliseconds have elapsed since the last
  refresh, \<open>refreshWallets\<close> returns the registry as it was: the wallet list,
  the timestamp and the event feed are the same.  Otherwise the timestamp
  becomes the time then read, whether or not a wallet was created.  Hence a call
  of \<open>Wallets\<close> made within 500 milliseconds of the timestamp that an earlier
  call left changes nothing and returns the same list: of two such calls only
  the first can scan.
\<close>

theorem refreshWallets_throttle:
  "(time_Sub now (refreshed rw) < 500 * Millisecond \<longrightarrow> refreshWallets now now' rw = rw)
   \<and> (\<not> time_Sub now (refreshed rw) < 500 * Millisecond \<longrightarrow>
        refreshed (refreshWallets now now' rw) = now')
   \<and> (time_Sub t2 (refreshed (snd (Wallets t1 t1' rw))) < 500 * Millisecond \<longrightarrow>
        Wallets t2 t2' (snd (Wallets t1 t1' rw)) = Wallets t1 t1' rw)"
  by (auto simp: refreshWallets_def Wallets_def refreshThrottling_def Let_def split: prod.splits)

theorem refreshWallets_throttle_witness:
  "time_Sub (example_now + 100 * Millisecond) (refreshed example_registry) < 500 * Millisecond
   \<and> refreshWallets (example_now + 100 * Millisecond) (example_now + 100 * Millisecond)
        example_registry = example_registry
   \<and> \<not> time_Sub (example_now + Second) (refreshed example_registry) < 500 * Millisecond
   \<and> refreshed (refreshWallets (example_now + Second) (example_now + Second + 1)
        example_registry) = example_now + Second + 1
   \<and> time_Sub (example_now + Second + 2)
        (refreshed (snd (Wallets (example_now + Second) (example_now + Second + 1)
           example_registry))) < 500 * Millisecond
   \<and> Wallets (example_now + Second + 2) (example_now + Second + 3)
        (snd (Wallets (example_now + Second) (example_now + Second + 1) example_registry))
       = Wallets (example_now + Second) (example_now + Second + 1) example_registry"
proof -
  have r: "refreshed example_registry = example_now"
    by (simp add: example_registry_eq)
  have h1: "time_Sub (example_now + 100 * Millisecond) (refreshed example_registry)
              < 500 * Millisecond"
    by (simp add: r clock_defs)
  have h2: "\<not> time_Sub (example_now + Second) (refreshed example_registry) < 500 * Millisecond"
    by (simp add: r clock_defs)
  note inst1 = refreshWallets_throttle[where rw = example_registry
      and now = "example_now + 100 * Millisecond" and now' = "example_now + 100 * Millisecond"]
  note inst2 = refreshWallets_throttle[where rw = example_registry
      and now = "example_now + Second" and now' = "example_now + Second + 1"
      and ?t1.0 = "example_now + Second" and t1' = "example_now + Second + 1"
      and ?t2.0 = "example_now + Second + 2" and t2' = "example_now + Second + 3"]
  from inst1 h1 have a: "refreshWallets (example_now + 100 * Millisecond)
      (example_now + 100 * Millisecond) example_registry = example_registry"
    by blast
  from inst2 h2 have b: "refreshed (refreshWallets (example_now + Second)
      (example_now + Second + 1) example_registry) = example_now + Second + 1"
    by blast
  then have h3: "time_Sub (example_now + Second + 2)
        (refreshed (snd (Wallets (example_now + Second) (example_now + Second + 1)
           example_registry))) < 500 * Millisecond"
    by (simp add: Wallets_def Let_def clock_defs)
  from inst2 h3 have c: "Wallets (example_now + Second + 2) (example_now + Second + 3)
        (snd (Wallets (example_now + Second) (example_now + Second + 1) example_registry))
       = Wallets (example_now + Second) (example_now + Second + 1) example_registry"
    by blast
  show ?thesis using h1 a h2 b h3 c by blast
qed

text \<open>
  Claim C6, as the code has it.  For a registry whose wallet list is empty and
  whose throttle window has elapsed, \<open>Wallets\<close> returns exactly one wallet.  The
  scheme of its URL is the registry's scheme.  The path of its URL is the
  constant \<open>VeriteemSigningServer\<close> of the package, whatever address the
  registry's signing server has: it is the registry's configured address
  exactly when that address is the constant.  The feed is given exactly one
  more event, \<open>WalletArrived\<close> for that wallet.
\<close>

theorem Wallets_first_wallet_constant_path:
  "wallets rw = [] \<Longrightarrow> \<not> time_Sub now (refreshed rw) < refreshThrottling \<Longrightarrow>
   (\<exists>w. fst (Wallets now now' rw) = [w]
        \<and> Scheme (url w) = scheme rw
        \<and> Path (url w) = VeriteemSigningServer
        \<and> (Path (url w) = serverURL (signingServer rw)
             \<longleftrightarrow> serverURL (signingServer rw) = VeriteemSigningServer)
        \<and> updateFeed (snd (Wallets now now' rw))
            = updateFeed rw @ [\<lparr>Wallet = w, Kind = WalletArrived\<rparr>])"
  by (auto simp: refreshWallets_def Wallets_def Let_def split: prod.splits)

theorem Wallets_first_wallet_constant_path_witness:
  "wallets empty_registry = []
   \<and> \<not> time_Sub example_now (refreshed empty_registry) < refreshThrottling
   \<and> serverURL (signingServer empty_registry) = VeriteemSigningServer
   \<and> (\<exists>w. fst (Wallets example_now example_now empty_registry) = [w]
        \<and> Scheme (url w) = scheme empty_registry
        \<and> Path (url w) = VeriteemSigningServer
        \<and> Path (url w) = serverURL (signingServer empty_registry)
        \<and> updateFeed (snd (Wallets example_now example_now empty_registry))
            = updateFeed empty_registry @ [\<lparr>Wallet = w, Kind = WalletArrived\<rparr>])"
proof -
  have h1: "wallets empty_registry = []"
    by (simp add: empty_registry_def)
  have h2: "\<not> time_Sub example_now (refreshed empty_registry) < refreshThrottling"
    by (simp add: empty_registry_def clock_defs)
  have h3: "serverURL (signingServer empty_registry) = VeriteemSigningServer"
    by (simp add: empty_registry_def example_server_def)
  from Wallets_first_wallet_constant_path[OF h1 h2, where now' = example_now] h1 h2 h3
  show ?thesis by metis
qed

text \<open>
  The claim C6 as it was stated fails on a registry made for a signing server
  at another address: the one wallet \<open>Wallets\<close> returns has the constant as the
  path of its URL, not the address the registry was given.
\<close>

theorem Wallets_first_wallet_counterexample:
  "wallets other_registry = []
   \<and> \<not> time_Sub example_now (refreshed other_registry) < refreshThrottling
   \<and> fst (Wallets example_now example_now other_registry) = [other_wallet]
   \<and> Scheme (url other_wallet) = scheme other_registry
   \<and> Path (url other_wallet) = ''http://13.59.10.65:80''
   \<and> serverURL (signingServer other_registry) = ''http://127.0.0.1:8545''
   \<and> Path (url other_wallet) \<noteq> serverURL (signingServer other_registry)"
  by (simp add: Wallets_def refreshWallets_def other_registry_def other_wallet_def
      other_server_def VeriteemSigningServer_def clock_defs Let_def)

subsection \<open>The updater task\<close>

lemma updater_inv_init: "updater_inv (initial_system scheme0 server makeDriver0 now now')"
  by (simp add: updater_inv_def initial_system_def newRemoteWallet_def refreshWallets_updating)

lemma updater_inv_step:
  assumes "step a s = Some s'" and "updater_inv s"
  shows "updater_inv s'"
proof (cases a)
  case (DoSubscribe sink)
  with assms show ?thesis
    by (auto simp: updater_inv_def Subscribe_def Let_def split: if_splits)
next
  case (DoUnsubscribe sink)
  with assms show ?thesis
    by (auto simp: updater_inv_def Unsubscribe_def split: if_splits)
next
  case (DoWallets now now')
  with assms show ?thesis
    by (auto simp: updater_inv_def Wallets_def Let_def refreshWallets_updating)
next
  case (DoWalletActivity ws evs)
  with assms show ?thesis by (auto simp: updater_inv_def)
next
  case (UpdaterWakes i)
  with assms show ?thesis by (auto simp: updater_inv_def split: if_splits)
next
  case (UpdaterRefreshes i now now')
  with assms show ?thesis
    by (auto simp: updater_inv_def refreshWallets_updating split: if_splits)
next
  case (UpdaterChecks i)
  with assms show ?thesis
    by (auto simp: updater_inv_def updater_check_def split: if_splits)
qed

lemma updater_inv_run: "run acts s = Some s' \<Longrightarrow> updater_inv s \<Longrightarrow> updater_inv s'"
proof (induction acts arbitrary: s)
  case Nil
  then show ?case by simp
next
  case (Cons a acts)
  then obtain s1 where s1: "step a s = Some s1" and rest: "run acts s1 = Some s'"
    by (auto split: option.splits)
  from updater_inv_step[OF s1 Cons.prems(2)] have "updater_inv s1" .
  with Cons.IH rest show ?case by blast
qed

text \<open>
  Claim C7.  In every state the registry and its updater tasks reach, at most
  one updater task is alive, and the flag \<open>updating\<close> is set exactly when one
  is.  \<open>Subscribe\<close> starts an updater task exactly when the flag is clear, and
  leaves the flag set; the check at the end of an updater's iteration stops the
  task exactly when no subscription is tracked, and the flag stays set
  exactly when it was set and the task does not stop.
\<close>

theorem single_updater:
  "run acts (initial_system scheme0 server makeDriver0 now now') = Some s \<Longrightarrow>
     length (updaters s) \<le> 1
     \<and> (updating (registry s) \<longleftrightarrow> updaters s \<noteq> [])
     \<and> (fst (Subscribe sink rw) \<longleftrightarrow> \<not> updating rw)
     \<and> updating (snd (Subscribe sink rw))
     \<and> (fst (updater_check rw) \<longleftrightarrow> length (updateScope rw) = 0)
     \<and> (updating (snd (updater_check rw)) \<longleftrightarrow> updating rw \<and> \<not> fst (updater_check rw))"
proof -
  assume "run acts (initial_system scheme0 server makeDriver0 now now') = Some s"
  then have "updater_inv s"
    using updater_inv_init by (rule updater_inv_run)
  then have "length (updaters s) \<le> 1 \<and> (updating (registry s) \<longleftrightarrow> updaters s \<noteq> [])"
    by (auto simp: updater_inv_def split: if_splits)
  moreover have "(fst (Subscribe sink rw) \<longleftrightarrow> \<not> updating rw)
     \<and> updating (snd (Subscribe sink rw))"
    by (simp add: Subscribe_def Let_def)
  moreover have "(fst (updater_check rw) \<longleftrightarrow> length (updateScope rw) = 0)
     \<and> (updating (snd (updater_check rw)) \<longleftrightarrow> updating rw \<and> \<not> fst (updater_check rw))"
    by (simp add: updater_check_def)
  ultimately show ?thesis by blast
qed

lemma example_system:
  "initial_system RemoteWalletScheme example_server newVeriteemDriver example_now example_now
     = \<lparr>registry = example_registry, updaters = []\<rparr>"
  by (simp add: initial_system_def example_registry_def NewVeriteemWallet_def example_server_def
      Let_def)

lemma example_run:
  "run [DoSubscribe 1, UpdaterWakes 0, UpdaterRefreshes 0 example_now example_now,
        DoUnsubscribe 1, DoSubscribe 2, UpdaterChecks 0]
     \<lparr>registry = example_registry, updaters = []\<rparr>
   = Some \<lparr>registry = example_registry\<lparr>updateScope := [2], updating := True\<rparr>,
           updaters = [Sleeping]\<rparr>"
  by (simp add: example_registry_eq Subscribe_def Unsubscribe_def updater_check_def
      refreshWallets_def clock_defs Let_def)

lemma example_run_stop:
  "run [DoSubscribe 1, UpdaterWakes 0, UpdaterRefreshes 0 example_now example_now,
        DoUnsubscribe 1, UpdaterChecks 0]
     \<lparr>registry = example_registry, updaters = []\<rparr>
   = Some \<lparr>registry = example_registry, updaters = []\<rparr>"
  by (simp add: example_registry_eq Subscribe_def Unsubscribe_def updater_check_def
      refreshWallets_def clock_defs Let_def)

theorem single_updater_witness:
  "run [DoSubscribe 1, UpdaterWakes 0, UpdaterRefreshes 0 example_now example_now,
        DoUnsubscribe 1, DoSubscribe 2, UpdaterChecks 0]
     (initial_system RemoteWalletScheme example_server newVeriteemDriver example_now example_now)
   = Some \<lparr>registry = example_registry\<lparr>updateScope := [2], updating := True\<rparr>,
           updaters = [Sleeping]\<rparr>
   \<and> length (updaters \<lparr>registry = example_registry\<lparr>updateScope := [2], updating := True\<rparr>,
                       updaters = [Sleeping]\<rparr>) \<le> 1
   \<and> updating (registry \<lparr>registry = example_registry\<lparr>updateScope := [2], updating := True\<rparr>,
                         updaters = [Sleeping]\<rparr>)
   \<and> fst (Subscribe 1 example_registry)
   \<and> \<not> updating example_registry
   \<and> run [DoSubscribe 1, UpdaterWakes 0, UpdaterRefreshes 0 example_now example_now,
          DoUnsubscribe 1, UpdaterChecks 0]
       (initial_system RemoteWalletScheme example_server newVeriteemDriver example_now
          example_now)
     = Some \<lparr>registry = example_registry, updaters = []\<rparr>"
proof -
  let ?s1 = "\<lparr>registry = example_registry\<lparr>updateScope := [2], updating := True\<rparr>,
             updaters = [Sleeping]\<rparr>"
  have r1: "run [DoSubscribe 1, UpdaterWakes 0, UpdaterRefreshes 0 example_now example_now,
        DoUnsubscribe 1, DoSubscribe 2, UpdaterChecks 0]
     (initial_system RemoteWalletScheme example_server newVeriteemDriver example_now example_now)
   = Some ?s1"
    by (simp only: example_system example_run)
  have r2: "run [DoSubscribe 1, UpdaterWakes 0, UpdaterRefreshes 0 example_now example_now,
          DoUnsubscribe 1, UpdaterChecks 0]
       (initial_system RemoteWalletScheme example_server newVeriteemDriver example_now
          example_now)
     = Some \<lparr>registry = example_registry, updaters = []\<rparr>"
    by (simp only: example_system example_run_stop)
  have u: "\<not> updating example_registry"
    by (simp add: example_registry_eq)
  from single_updater[OF r1, where sink = 1 and rw = example_registry] u
  have "length (updaters ?s1) \<le> 1 \<and> updating (registry ?s1) \<and> fst (Subscribe 1 example_registry)"
    by simp
  with r1 r2 u show ?thesis by blast
qed

section \<open>Properties of the Veriteem driver and of the heartbeat task\<close>

lemma VeriteemDriver_Heartbeat_nil: "VeriteemDriver_Heartbeat d = (None, d)"
  by (simp add: VeriteemDriver_Heartbeat_def ledgerVersion_def)

lemma call_Heartbeat_Veriteem:
  "call_Heartbeat (Veriteem lib) w = (None, w\<lparr>calls := calls w @ [CallHeartbeat]\<rparr>)"
  by (simp add: call_Heartbeat_def Veriteem_def VeriteemDriver_Heartbeat_nil)

lemma commsLock_restore:
  "commsLock w = Some True \<Longrightarrow>
   w\<lparr>calls := cs, commsLock := Some True\<rparr> = w\<lparr>calls := cs\<rparr>"
  by (cases w) simp

lemma heartbeat_exit_wallet: "end_wallet (heartbeat_exit errc err evs w) = w"
  by (simp add: heartbeat_exit_def split: option.splits)

lemma heartbeat_loop_Veriteem:
  "\<exists>n. end_wallet (heartbeat_loop (Veriteem lib) errc err evs w)
         = w\<lparr>calls := calls w @ replicate n CallHeartbeat\<rparr>"
proof (induction evs arbitrary: errc err w)
  case Nil
  have "end_wallet (heartbeat_loop (Veriteem lib) errc err [] w)
          = w\<lparr>calls := calls w @ replicate 0 CallHeartbeat\<rparr>"
    by (simp add: heartbeat_exit_wallet)
  then show ?case by blast
next
  case (Cons ev evs)
  show ?case
  proof (cases "errc = None \<and> err = None")
    case False
    then have "end_wallet (heartbeat_loop (Veriteem lib) errc err (ev # evs) w)
                 = w\<lparr>calls := calls w @ replicate 0 CallHeartbeat\<rparr>"
      by (auto simp add: heartbeat_exit_wallet)
    then show ?thesis by blast
  next
    case True
    show ?thesis
    proof (cases ev)
      case (Termination c)
      with True Cons.IH[of "Some c" err w] show ?thesis by simp
    next
      case HeartbeatCycle
      show ?thesis
      proof (cases "commsLock w = Some True")
        case False
        with True HeartbeatCycle
        have "end_wallet (heartbeat_loop (Veriteem lib) errc err (ev # evs) w)
                = w\<lparr>calls := calls w @ replicate 0 CallHeartbeat\<rparr>"
          by (auto split: option.splits bool.splits)
        then show ?thesis by blast
      next
        case lock: True
        let ?w3 = "w\<lparr>calls := calls w @ [CallHeartbeat]\<rparr>"
        have eq: "heartbeat_loop (Veriteem lib) errc err (ev # evs) w
                   = heartbeat_loop (Veriteem lib) errc None evs ?w3"
          using True HeartbeatCycle lock
          by (simp add: call_Heartbeat_Veriteem commsLock_restore)
        obtain n where "end_wallet (heartbeat_loop (Veriteem lib) errc None evs ?w3)
              = ?w3\<lparr>calls := calls ?w3 @ replicate n CallHeartbeat\<rparr>"
          using Cons.IH[of errc None ?w3] by blast
        then have "end_wallet (heartbeat_loop (Veriteem lib) errc err (ev # evs) w)
              = w\<lparr>calls := calls w @ replicate (Suc n) CallHeartbeat\<rparr>"
          using eq by simp
        then show ?thesis by blast
      qed
    qed
  qed
qed

text \<open>A request that arrives before any heartbeat cycle is answered at once,
  with nil.\<close>

lemma heartbeat_request_first: "heartbeat drv (Termination c # evs) w = Replied c None w"
  by (cases evs) (simp_all add: heartbeat_def heartbeat_exit_def)

text \<open>Whatever the driver and the cycles, the error the task replies is nil.\<close>

lemma heartbeat_loop_reply_nil:
  "heartbeat_loop drv errc None evs w = Replied c e w' \<Longrightarrow> e = None"
proof (induction evs arbitrary: errc w)
  case Nil
  then show ?case by (auto simp: heartbeat_exit_def split: if_splits option.splits)
next
  case (Cons ev evs)
  show ?case
  proof (cases "errc = None")
    case False
    with Cons.prems show ?thesis by (auto simp: heartbeat_exit_def split: option.splits)
  next
    case True
    show ?thesis
    proof (cases ev)
      case (Termination c')
      with True Cons.prems Cons.IH[of "Some c'" w] show ?thesis by simp
    next
      case HeartbeatCycle
      with True Cons.prems Cons.IH show ?thesis
        by (auto simp: Let_def split: option.splits bool.splits prod.splits if_splits)
    qed
  qed
qed

lemma heartbeat_reply_nil: "heartbeat drv evs w = Replied c e w' \<Longrightarrow> e = None"
  unfolding heartbeat_def by (rule heartbeat_loop_reply_nil)

text \<open>No method of the wallet or of the registry gives \<open>commsLock\<close> a channel.\<close>

lemma wallet_close_commsLock: "commsLock (snd (wallet_close drv w)) = commsLock w"
  by (simp add: wallet_close_def call_Close_def split: prod.splits)

lemma wallet_Open_commsLock: "commsLock (snd (wallet_Open drv passphrase hq w)) = commsLock w"
  by (auto simp: wallet_Open_def call_Open_def Let_def split: prod.splits option.splits)

lemma wallet_Accounts_commsLock: "commsLock (snd (wallet_Accounts drv w)) = commsLock w"
  by (auto simp: wallet_Accounts_def call_ReadAccounts_def Let_def split: prod.splits)

lemma wallet_SignTx_commsLock:
  "commsLock (snd (wallet_SignTx drv account tx chainID w)) = commsLock w"
  by (auto simp: wallet_SignTx_def call_SignTx_def split: prod.splits go_result.splits)

lemma refreshWallets_commsLock:
  "list_all (\<lambda>w. commsLock w = None) (wallets rw) \<Longrightarrow>
   list_all (\<lambda>w. commsLock w = None) (wallets (refreshWallets now now' rw))"
  by (auto simp: refreshWallets_def Let_def split: prod.splits)

text \<open>On a nil \<open>commsLock\<close> the first heartbeat cycle never ends.\<close>

lemma heartbeat_nil_commsLock:
  "commsLock w = None \<Longrightarrow> heartbeat drv (HeartbeatCycle # evs) w = BlockedOnCommsLock w"
  by (simp add: heartbeat_def)

lemma handshake_nil_commsLock:
  "commsLock w = None \<Longrightarrow> heartbeat_handshake drv (HeartbeatCycle # evs) errc w = None"
  by (simp add: heartbeat_handshake_def heartbeat_nil_commsLock)

text \<open>With a channel that holds its token, the task answers the request after
  any number of cycles, whatever the driver does.\<close>

lemma heartbeat_with_token:
  "commsLock w = Some True \<Longrightarrow>
   \<exists>w'. heartbeat_loop drv None None (replicate n HeartbeatCycle @ [Termination c]) w
          = Replied c None w'"
proof (induction n arbitrary: w)
  case 0
  then show ?case by (simp add: heartbeat_exit_def)
next
  case (Suc n)
  obtain err1 w1 where hb: "call_Heartbeat drv (w\<lparr>commsLock := Some False\<rparr>) = (err1, w1)"
    by (cases "call_Heartbeat drv (w\<lparr>commsLock := Some False\<rparr>)")
  let ?w2 = "w1\<lparr>commsLock := Some True\<rparr>"
  let ?w3 = "if err1 \<noteq> None then snd (wallet_close drv ?w2) else ?w2"
  have "commsLock ?w3 = Some True" by (simp add: wallet_close_commsLock)
  from Suc.IH[OF this] obtain w' where
    "heartbeat_loop drv None None (replicate n HeartbeatCycle @ [Termination c]) ?w3
       = Replied c None w'"
    by blast
  with Suc.prems hb show ?case by (auto simp: Let_def)
qed

text \<open>
  Claim C8.  The claim is that a termination request sent to the heartbeat task
  of an open wallet is answered exactly once, with nil, after which the task
  exits, and that \<open>Close\<close> waits for that answer before the teardown.  On the
  code this holds for a request that comes before the first heartbeat cycle
  (\<open>heartbeat_request_first\<close>, \<open>heartbeat_reply_nil\<close>), and would hold after any
  number of cycles if \<open>commsLock\<close> were a channel holding its token
  (\<open>heartbeat_with_token\<close>).  But \<open>commsLock\<close> is nil in every wallet the
  registry builds and stays nil.  For the wallet of the registry that
  \<open>NewVeriteemWallet\<close> returns, opened with success: after one heartbeat cycle
  the task is blocked in \<open><-w.commsLock\<close>, the request 1 gets no reply, and
  \<open>Close\<close> does not return.
\<close>

theorem heartbeat_blocked_on_nil_commsLock:
  "wallets example_registry = [new_wallet]
   \<and> fst (wallet_Open (Veriteem example_library) '''' 7 new_wallet)
       = (None, [GoHeartbeat, GoFeedSend \<lparr>Wallet = opened_wallet, Kind = WalletOpened\<rparr>])
   \<and> heartbeat (Veriteem example_library) [HeartbeatCycle, Termination 1] opened_wallet
       = BlockedOnCommsLock opened_wallet
   \<and> heartbeat_handshake (Veriteem example_library) [HeartbeatCycle] 1 opened_wallet = None
   \<and> wallet_Close (Veriteem example_library)
        (heartbeat_handshake (Veriteem example_library) [HeartbeatCycle] 1) opened_wallet = None"
proof -
  have w: "wallets example_registry = [new_wallet]"
    by (simp add: example_registry_eq)
  have o: "fst (wallet_Open (Veriteem example_library) '''' 7 new_wallet)
       = (None, [GoHeartbeat, GoFeedSend \<lparr>Wallet = opened_wallet, Kind = WalletOpened\<rparr>])"
    by (simp add: opened_wallet_def wallet_Open_def call_Open_def Veriteem_def new_wallet_def
        VeriteemDriver_Open_def ledgerVersion_def Let_def)
  have a: "heartbeat (Veriteem example_library) [HeartbeatCycle, Termination 1] opened_wallet
     = BlockedOnCommsLock opened_wallet"
    using opened_wallet_fields by (simp add: heartbeat_nil_commsLock)
  then have b: "heartbeat_handshake (Veriteem example_library) [HeartbeatCycle] 1 opened_wallet
     = None"
    by (simp add: heartbeat_handshake_def)
  then have c: "wallet_Close (Veriteem example_library)
        (heartbeat_handshake (Veriteem example_library) [HeartbeatCycle] 1) opened_wallet = None"
    using opened_wallet_fields by (simp add: wallet_Close_def)
  show ?thesis using w o a b c by simp
qed

text \<open>
  Claim C9.  Whenever \<open>VeriteemDriver.SignTx\<close> returns without error, the signer
  address it returns is the address of the account it was given.  So the call
  that \<open>wallet.SignTx\<close> makes to this driver never returns a nil error with
  another address, and \<open>wallet.SignTx\<close> on this driver is the function without
  the signer-mismatch branch.
\<close>

theorem Veriteem_signer_is_account:
  "(VeriteemDriver_SignTx lib account tx chainID d = (Return (sender, signedTx, None), d')
       \<longrightarrow> sender = Address account)
   \<and> (call_SignTx (Veriteem lib) account tx chainID w = (Return (sender, signedTx, None), w')
       \<longrightarrow> sender = Address account)
   \<and> wallet_SignTx (Veriteem lib) account tx chainID w
       = (if wallet_Contains w account = False then (Return (None, Some ErrUnknownAccount), w)
          else
            (case call_SignTx (Veriteem lib) account tx chainID w of
               (Panic, w1) \<Rightarrow> (Panic, w1)
             | (Return (sender1, signedTx1, err), w1) \<Rightarrow>
                 if err \<noteq> None then (Return (None, err), w1)
                 else (Return (signedTx1, None), w1)))"
proof -
  have drv: "s = Address account"
    if "VeriteemDriver_SignTx lib account tx chainID d0 = (Return (s, t, None), d1)"
    for d0 d1 s t
    using that
    by (auto simp: VeriteemDriver_SignTx_def Let_def
             split: option.splits prod.splits go_result.splits if_splits)
  have call: "s = Address account"
    if "call_SignTx (Veriteem lib) account tx chainID w = (Return (s, t, None), w1)"
    for s t w1
    using that drv[of "driver w" s t]
    by (auto simp: call_SignTx_def Veriteem_def split: prod.splits)
  have whole: "wallet_SignTx (Veriteem lib) account tx chainID w
       = (if wallet_Contains w account = False then (Return (None, Some ErrUnknownAccount), w)
          else
            (case call_SignTx (Veriteem lib) account tx chainID w of
               (Panic, w1) \<Rightarrow> (Panic, w1)
             | (Return (sender1, signedTx1, err), w1) \<Rightarrow>
                 if err \<noteq> None then (Return (None, err), w1)
                 else (Return (signedTx1, None), w1)))"
    unfolding wallet_SignTx_def
    by (auto split: prod.splits go_result.splits dest: call)
  show ?thesis using drv call whole by blast
qed

theorem Veriteem_signer_is_account_witness:
  "VeriteemDriver_SignTx example_library example_account example_tx (Some 1)
     (newVeriteemDriver example_server)
   = (Return (Address example_account, Some signed_tx, None), newVeriteemDriver example_server)
   \<and> wallet_Contains (example_wallet (newVeriteemDriver example_server)) example_account
   \<and> fst (wallet_SignTx (Veriteem example_library) example_account example_tx (Some 1)
            (example_wallet (newVeriteemDriver example_server)))
       = Return (Some signed_tx, None)"
proof -
  let ?w = "example_wallet (newVeriteemDriver example_server)"
  have c: "wallet_Contains ?w example_account"
    by (simp add: wallet_Contains_def example_wallet_def)
  note k = example_call_SignTx
  from Veriteem_signer_is_account[where lib = example_library and account = example_account
      and tx = example_tx and chainID = "Some 1" and w = ?w]
  have "wallet_SignTx (Veriteem example_library) example_account example_tx (Some 1) ?w
       = (if wallet_Contains ?w example_account = False
          then (Return (None, Some ErrUnknownAccount), ?w)
          else
            (case call_SignTx (Veriteem example_library) example_account example_tx (Some 1) ?w of
               (Panic, w1) \<Rightarrow> (Panic, w1)
             | (Return (sender1, signedTx1, err), w1) \<Rightarrow>
                 if err \<noteq> None then (Return (None, err), w1)
                 else (Return (signedTx1, None), w1)))"
    by blast
  with c k have "fst (wallet_SignTx (Veriteem example_library) example_account example_tx
                        (Some 1) ?w) = Return (Some signed_tx, None)"
    by simp
  with example_SignTx c show ?thesis by blast
qed

text \<open>
  Claim C10.  \<open>ledgerVersion\<close> returns version 1.0.0 and no error, so
  \<open>VeriteemDriver.Heartbeat\<close> returns nil and leaves the driver as it was.  With
  this driver the heartbeat task therefore never sees a failure and never runs
  the teardown: whatever the sequence of cycles and requests, the wallet it
  ends with is the wallet it started with, but for the \<open>Heartbeat\<close> calls added
  to the log (no \<open>Close\<close> among them, \<open>accounts\<close> and \<open>paths\<close> untouched).
\<close>

theorem Veriteem_heartbeat_never_fails:
  "ledgerVersion d = ((1, 0, 0), None)
   \<and> VeriteemDriver_Heartbeat d = (None, d)
   \<and> (\<exists>n. end_wallet (heartbeat (Veriteem lib) evs w)
            = w\<lparr>calls := calls w @ replicate n CallHeartbeat\<rparr>)"
  using heartbeat_loop_Veriteem[of lib None None evs w]
  by (simp add: heartbeat_def VeriteemDriver_Heartbeat_nil ledgerVersion_def)

theorem Veriteem_heartbeat_never_fails_witness:
  "VeriteemDriver_Heartbeat (newVeriteemDriver example_server)
     = (None, newVeriteemDriver example_server)
   \<and> (\<exists>n. end_wallet (heartbeat (Veriteem example_library)
              [HeartbeatCycle, HeartbeatCycle, Termination 1]
              (opened_wallet\<lparr>commsLock := Some True\<rparr>))
            = opened_wallet\<lparr>commsLock := Some True,
                 calls := calls opened_wallet @ replicate n CallHeartbeat\<rparr>)"
  using Veriteem_heartbeat_never_fails[where d = "newVeriteemDriver example_server"
      and lib = example_library and evs = "[HeartbeatCycle, HeartbeatCycle, Termination 1]"
      and w = "opened_wallet\<lparr>commsLock := Some True\<rparr>"]
  by simp

end
